theory Spec2Isabelle
  imports Main "HOL-Library.Word"
begin

section \<open>Scope\<close>

text \<open>
  A model of \<^verbatim>\<open>db2odbc_fdw.c\<close>: the connection cache, the option validator,
  the connector, and the scan callbacks begin, iterate and end. The ODBC
  driver and the host are parameters: what the driver answers to each call is
  an argument of the model, and so are the option lists of the catalog. The
  host's allocators (\<^verbatim>\<open>malloc\<close>, \<^verbatim>\<open>palloc\<close>) and catalog lookups are taken
  to succeed, and output below the level \<^verbatim>\<open>NOTICE\<close> (\<^verbatim>\<open>logdebug\<close>) is left
  out. Integer widths are those of a 64-bit Unix: \<^verbatim>\<open>int\<close> and
  \<^verbatim>\<open>SQLINTEGER\<close> have 32 bits, \<^verbatim>\<open>long\<close> and \<^verbatim>\<open>SQLLEN\<close> have 64.
\<close>

section \<open>C strings and fixed-size character arrays\<close>

text \<open>
  A \<^verbatim>\<open>const char *\<close> argument is modelled by the bytes it points to, the
  terminating NUL left implicit at the end of the list (a NUL inside the list
  terminates it earlier, as it would in C). A \<^verbatim>\<open>char[N]\<close> array is
  modelled by its N bytes, nothing implicit after them.
\<close>

definition NUL :: char where
  "NUL = CHR 0x00"

definition DSN_MAX_LEN :: nat where
  "DSN_MAX_LEN = 128"

text \<open>The characters of a C string: everything before the first NUL.\<close>

definition cstr :: "char list \<Rightarrow> char list" where
  "cstr s = takeWhile (\<lambda>c. c \<noteq> NUL) s"

text \<open>
  \<^verbatim>\<open>strncpy(dest, src, n)\<close>: exactly \<open>n\<close> bytes of \<open>dest\<close> are written, the
  characters of \<open>src\<close> first and NUL padding after them when \<open>src\<close> is shorter
  than \<open>n\<close>. When \<open>src\<close> has \<open>n\<close> characters or more, no NUL is written.
  The bytes of \<open>dest\<close> from index \<open>n\<close> on are left as they were.
\<close>

definition strncpy :: "char list \<Rightarrow> char list \<Rightarrow> nat \<Rightarrow> char list" where
  "strncpy dest src n = take n (cstr src @ replicate n NUL) @ drop n dest"

text \<open>
  \<^verbatim>\<open>strcmp(a, s) == 0\<close> for an array \<open>a\<close> and a string argument \<open>s\<close>.
  The comparison stops at the first difference or at a common NUL. \<open>None\<close> is
  the undefined case: the comparison runs past the last byte of the array.
\<close>

fun strcmp_eq :: "char list \<Rightarrow> char list \<Rightarrow> bool option" where
  "strcmp_eq [] s = None"
| "strcmp_eq (a # as) [] = Some (a = NUL)"
| "strcmp_eq (a # as) (c # cs) =
     (if c = NUL then Some (a = NUL)
      else if a = c then strcmp_eq as cs
      else Some False)"

section \<open>The connection cache\<close>

type_synonym handle = nat
type_synonym Oid = "32 word"
type_synonym SQLSMALLINT = int

definition SQL_HANDLE_ENV :: SQLSMALLINT where "SQL_HANDLE_ENV = 1"
definition SQL_HANDLE_DBC :: SQLSMALLINT where "SQL_HANDLE_DBC = 2"
definition SQL_HANDLE_STMT :: SQLSMALLINT where "SQL_HANDLE_STMT = 3"

text \<open>
  \<^verbatim>\<open>struct db2ConnectionCacheEntry\<close>. The \<^verbatim>\<open>next\<close> pointer is the list
  structure: the static variable \<^verbatim>\<open>cache\<close> is the list of the entries
  reached from it.
\<close>

record db2ConnectionCacheEntry =
  dsn_name :: "char list"
  userId :: Oid
  env :: handle
  dbc :: handle

text \<open>
  What the C code can do besides returning: \<^verbatim>\<open>ereport(ERROR, ...)\<close> leaves
  the calling function at once (\<open>PgError\<close>: error code, message, hint), and a
  few calls have no defined behaviour in C (\<open>Undefined\<close>).
\<close>

datatype errcode =
    ERRCODE_FDW_INVALID_OPTION_NAME
  | ERRCODE_FDW_OPTION_NAME_NOT_FOUND
  | ERRCODE_FDW_UNABLE_TO_ESTABLISH_CONNECTION
  | ERRCODE_FDW_ERROR

datatype error =
    PgError errcode string string
  | Undefined string

text \<open>
  \<^verbatim>\<open>elog(NOTICE, ...)\<close> output. A diagnostic record line carries SQLSTATE,
  record number, native code and message text.
\<close>

datatype notice =
    Notice string
  | DiagHeader string
  | DiagLine string int int string

text \<open>
  The process state the functions act on: the static cache list, the handles
  released with \<^verbatim>\<open>SQLFreeHandle\<close>, the notices emitted, and how many
  \<^verbatim>\<open>SQLConnect\<close>, \<^verbatim>\<open>SQLExecDirect\<close> and \<^verbatim>\<open>SQLFetch\<close> calls were made so far.
\<close>

record world =
  cache :: "db2ConnectionCacheEntry list"
  freed :: "(SQLSMALLINT \<times> handle) list"
  notices :: "notice list"
  connects :: nat
  execs :: nat
  fetches :: nat

text \<open>
  \<^verbatim>\<open>findConnection\<close>: the first entry whose name compares equal and whose
  user id is the same. A NULL \<open>dsn\<close> reaching \<^verbatim>\<open>strcmp\<close> is undefined.
\<close>

fun findConnection ::
  "char list option \<Rightarrow> Oid \<Rightarrow> db2ConnectionCacheEntry list \<Rightarrow>
     error + db2ConnectionCacheEntry option" where
  "findConnection dsn uid [] = Inr None"
| "findConnection dsn uid (e # es) =
     (case dsn of
        None \<Rightarrow> Inl (Undefined ''strcmp: NULL argument'')
      | Some d \<Rightarrow>
          (case strcmp_eq (dsn_name e) d of
             None \<Rightarrow> Inl (Undefined ''strcmp: read past dsn_name'')
           | Some eq \<Rightarrow>
               if eq \<and> userId e = uid then Inr (Some e)
               else findConnection dsn uid es))"

text \<open>
  \<^verbatim>\<open>addNewConnection\<close>. \<open>raw\<close> is what the \<^verbatim>\<open>dsn_name\<close> bytes of the
  block returned by \<^verbatim>\<open>malloc\<close> hold before the call: \<^verbatim>\<open>malloc\<close> does not
  clear memory. Only \<open>DSN_MAX_LEN - 1\<close> bytes are written by \<^verbatim>\<open>strncpy\<close>;
  the last byte of the array is never assigned.
\<close>

definition addNewConnection ::
  "char list \<Rightarrow> char list option \<Rightarrow> Oid \<Rightarrow> handle \<Rightarrow> handle \<Rightarrow> world \<Rightarrow> error + world" where
  "addNewConnection raw dsn uid henv hdbc w =
     (case dsn of
        None \<Rightarrow> Inl (Undefined ''strncpy: NULL argument'')
      | Some d \<Rightarrow>
          Inr (w\<lparr>cache :=
                 \<lparr>dsn_name = strncpy raw d (DSN_MAX_LEN - 1),
                  userId = uid, env = henv, dbc = hdbc\<rparr> # cache w\<rparr>))"

text \<open>
  \<^verbatim>\<open>removeConnection\<close>. The loop walks the entries from \<^verbatim>\<open>cache\<close>
  (third argument: the entries from \<^verbatim>\<open>e\<close> on). \<^verbatim>\<open>prev\<close> is set to NULL
  before the loop and the loop never assigns it, so it is passed on unchanged;
  were it the index of an entry of the list, \<^verbatim>\<open>prev->next = e->next\<close> would
  keep the list up to that entry. On a match with \<^verbatim>\<open>prev == NULL\<close> the
  assignment \<^verbatim>\<open>cache = e->next\<close> makes the rest of the walk the whole cache.
  The loop's \<^verbatim>\<open>e = e->next\<close> after \<^verbatim>\<open>free(e)\<close> is modelled as reading the
  pointer the entry held before it was freed.
\<close>

fun removeConnection_loop ::
  "handle \<Rightarrow> nat option \<Rightarrow> db2ConnectionCacheEntry list \<Rightarrow> world \<Rightarrow> world" where
  "removeConnection_loop h prev [] w = w"
| "removeConnection_loop h prev (e # rest) w =
     (if dbc e = h then
        removeConnection_loop h prev rest
          (w\<lparr>cache := (case prev of
                          None \<Rightarrow> rest
                        | Some k \<Rightarrow> take (Suc k) (cache w) @ rest),
             freed := freed w @ [(SQL_HANDLE_DBC, dbc e), (SQL_HANDLE_ENV, env e)]\<rparr>)
      else removeConnection_loop h prev rest w)"

definition removeConnection :: "handle \<Rightarrow> world \<Rightarrow> world" where
  "removeConnection h w = removeConnection_loop h None (cache w) w"

section \<open>Option validation\<close>

text \<open>
  The catalog ids a validator is called with (PostgreSQL's catalog headers):
  \<^verbatim>\<open>pg_foreign_server\<close>, \<^verbatim>\<open>pg_user_mapping\<close>, \<^verbatim>\<open>pg_foreign_table\<close>.
\<close>

definition ForeignServerRelationId :: Oid where "ForeignServerRelationId = 1417"
definition UserMappingRelationId :: Oid where "UserMappingRelationId = 1418"
definition ForeignTableRelationId :: Oid where "ForeignTableRelationId = 3118"

record db2FdwOption =
  optname :: string
  optcontext :: Oid
  required :: bool

text \<open>The \<^verbatim>\<open>valid_options\<close> array; its sentinel entry is the end of the list.\<close>

definition valid_options :: "db2FdwOption list" where
  "valid_options =
     [\<lparr>optname = ''dsn'', optcontext = ForeignServerRelationId, required = True\<rparr>,
      \<lparr>optname = ''cached'', optcontext = ForeignServerRelationId, required = False\<rparr>,
      \<lparr>optname = ''sql_query'', optcontext = ForeignTableRelationId, required = True\<rparr>,
      \<lparr>optname = ''username'', optcontext = UserMappingRelationId, required = True\<rparr>,
      \<lparr>optname = ''password'', optcontext = UserMappingRelationId, required = True\<rparr>]"

text \<open>
  A \<^verbatim>\<open>DefElem\<close> of an option list: the option's name and its string value
  (\<^verbatim>\<open>defGetString\<close>). The catalogs store every option as \<open>name=value\<close>,
  so that each element has a value.
\<close>

record DefElem =
  defname :: string
  defarg :: string

text \<open>
  \<^verbatim>\<open>createValidOptions\<close>: the names of the options of one context, separated
  by a comma and a blank.
\<close>

fun createValidOptions_loop :: "db2FdwOption list \<Rightarrow> Oid \<Rightarrow> string \<Rightarrow> string" where
  "createValidOptions_loop [] context buf = buf"
| "createValidOptions_loop (opt1 # rest) context buf =
     createValidOptions_loop rest context
       (if context = optcontext opt1
        then buf @ (if length buf > 0 then '', '' else []) @ optname opt1
        else buf)"

definition createValidOptions :: "Oid \<Rightarrow> string" where
  "createValidOptions context = createValidOptions_loop valid_options context []"

definition valid_options_hint :: "Oid \<Rightarrow> string" where
  "valid_options_hint context =
     ''Valid options in this context are: '' @
       (let buf = createValidOptions context in if length buf \<noteq> 0 then buf else ''<none>'')"

text \<open>
  The inner loop of the first phase: the table is searched for the first entry
  with the option's name, and the search stops there. The result is the flag
  \<^verbatim>\<open>valid\<close> and whether the sentinel was reached (\<^verbatim>\<open>opt->optname == NULL\<close>).
\<close>

fun find_option :: "db2FdwOption list \<Rightarrow> string \<Rightarrow> Oid \<Rightarrow> bool \<times> bool" where
  "find_option [] name context = (False, True)"
| "find_option (opt # rest) name context =
     (if optname opt = name then (context = optcontext opt, False)
      else find_option rest name context)"

fun check_options :: "DefElem list \<Rightarrow> Oid \<Rightarrow> error + unit" where
  "check_options [] context = Inr ()"
| "check_options (def # rest) context =
     (case find_option valid_options (defname def) context of
        (valid, at_sentinel) \<Rightarrow>
          if \<not> valid then
            Inl (PgError ERRCODE_FDW_INVALID_OPTION_NAME
                  (''invalid option '' @ [CHR 0x22] @ defname def @ [CHR 0x22] @ '' '' @
                     (if at_sentinel then []
                      else ''(option name is recognized but is invalid in this context)''))
                  (valid_options_hint context))
          else check_options rest context)"

text \<open>The second phase: every required option of the context is in the list.\<close>

fun option_given :: "DefElem list \<Rightarrow> string \<Rightarrow> bool" where
  "option_given [] name = False"
| "option_given (def # rest) name = (if name = defname def then True else option_given rest name)"

fun check_required :: "db2FdwOption list \<Rightarrow> DefElem list \<Rightarrow> Oid \<Rightarrow> error + unit" where
  "check_required [] options_list context = Inr ()"
| "check_required (opt1 # rest) options_list context =
     (if \<not> required opt1 then check_required rest options_list context
      else if context \<noteq> optcontext opt1 then check_required rest options_list context
      else if \<not> option_given options_list (optname opt1) then
        Inl (PgError ERRCODE_FDW_OPTION_NAME_NOT_FOUND
              (''option is required: '' @ optname opt1)
              (valid_options_hint context))
      else check_required rest options_list context)"

definition db2odbc_fdw_validator :: "DefElem list \<Rightarrow> Oid \<Rightarrow> error + unit" where
  "db2odbc_fdw_validator options_list context =
     (case check_options options_list context of
        Inl e \<Rightarrow> Inl e
      | Inr _ \<Rightarrow> check_required valid_options options_list context)"

text \<open>
  The specification's words for the two tables: the allow-list of a context
  and its required keys.
\<close>

definition allow_list :: "Oid \<Rightarrow> string list" where
  "allow_list context = map optname (filter (\<lambda>opt. optcontext opt = context) valid_options)"

definition required_keys :: "Oid \<Rightarrow> string list" where
  "required_keys context =
     map optname (filter (\<lambda>opt. optcontext opt = context \<and> required opt) valid_options)"

fun join_names :: "string list \<Rightarrow> string" where
  "join_names [] = []"
| "join_names [n] = n"
| "join_names (n # m # ns) = n @ '', '' @ join_names (m # ns)"


section \<open>Driver calls and diagnostics\<close>

text \<open>
  ODBC return codes (\<^verbatim>\<open>sql.h\<close>) and the macro \<^verbatim>\<open>SQL_SUCCEEDED\<close>
  (\<^verbatim>\<open>sqlext.h\<close>), which holds of \<^verbatim>\<open>SQL_SUCCESS\<close> and of
  \<^verbatim>\<open>SQL_SUCCESS_WITH_INFO\<close>. \<^verbatim>\<open>SQL_NO_DATA_FOUND\<close> is another name of
  \<^verbatim>\<open>SQL_NO_DATA\<close>.
\<close>

type_synonym SQLRETURN = int
type_synonym SQLINTEGER = "32 word"
type_synonym SQLLEN = "64 word"

definition SQL_SUCCESS :: SQLRETURN where "SQL_SUCCESS = 0"
definition SQL_SUCCESS_WITH_INFO :: SQLRETURN where "SQL_SUCCESS_WITH_INFO = 1"
definition SQL_NO_DATA :: SQLRETURN where "SQL_NO_DATA = 100"
definition SQL_NO_DATA_FOUND :: SQLRETURN where "SQL_NO_DATA_FOUND = SQL_NO_DATA"
definition SQL_ERROR :: SQLRETURN where "SQL_ERROR = - 1"

definition SQL_SUCCEEDED :: "SQLRETURN \<Rightarrow> bool" where
  "SQL_SUCCEEDED rc \<longleftrightarrow> rc = SQL_SUCCESS \<or> rc = SQL_SUCCESS_WITH_INFO"

definition ANYERROR :: int where "ANYERROR = - 1"

definition RETRYNUMB :: nat where "RETRYNUMB = 2"

text \<open>
  One answer of \<^verbatim>\<open>SQLGetDiagRec\<close>: its return code and what it left in the
  \<^verbatim>\<open>state\<close>, \<^verbatim>\<open>native\<close> and \<^verbatim>\<open>text\<close> buffers. The diagnostics of a
  handle are the answers to the calls for record 1, 2, ... in order; a call
  past the end of the list answers \<^verbatim>\<open>SQL_NO_DATA\<close>.
\<close>

record diag_answer =
  diag_ret :: SQLRETURN
  diag_state :: string
  diag_native :: SQLINTEGER
  diag_text :: string

text \<open>
  The \<^verbatim>\<open>do ... while (ret == SQL_SUCCESS)\<close> loop of \<^verbatim>\<open>extract_error\<close>.
  \<open>i\<close> is the record counter, \<open>outnative\<close> is \<open>None\<close> for a NULL pointer
  and else the value it points to, \<open>out\<close> collects the notices.
\<close>

fun extract_error_loop ::
  "diag_answer list \<Rightarrow> int \<Rightarrow> SQLINTEGER option \<Rightarrow> notice list \<Rightarrow>
     SQLINTEGER option \<times> notice list" where
  "extract_error_loop [] i outnative out = (outnative, out)"
| "extract_error_loop (a # rest) i outnative out =
     (let i' = i + 1;
          out' = (if SQL_SUCCEEDED (diag_ret a)
                  then out @ [DiagLine (diag_state a) i' (sint (diag_native a)) (diag_text a)]
                  else out);
          outnative' = (case outnative of
                          None \<Rightarrow> None
                        | Some v \<Rightarrow>
                            if SQL_SUCCEEDED (diag_ret a) \<and> sint v = ANYERROR
                            then Some (diag_native a) else Some v)
      in if diag_ret a = SQL_SUCCESS
         then extract_error_loop rest i' outnative' out'
         else (outnative', out'))"

text \<open>
  \<^verbatim>\<open>extract_error\<close>: \<open>want\<close> says whether \<^verbatim>\<open>outnative\<close> is a non-NULL
  pointer. The result is the value left in \<^verbatim>\<open>*outnative\<close>, if any.
\<close>

definition extract_error ::
  "string \<Rightarrow> diag_answer list \<Rightarrow> bool \<Rightarrow> world \<Rightarrow> SQLINTEGER option \<times> world" where
  "extract_error fn diags want w =
     (case extract_error_loop diags 0 (if want then Some (word_of_int ANYERROR) else None)
             [DiagHeader fn] of
        (outnative, out) \<Rightarrow> (outnative, w\<lparr>notices := notices w @ out\<rparr>))"

definition lognotice :: "string \<Rightarrow> world \<Rightarrow> world" where
  "lognotice s w = w\<lparr>notices := notices w @ [Notice s]\<rparr>"

section \<open>The C library's atol\<close>

text \<open>
  \<^verbatim>\<open>atol\<close>: white space is skipped, an optional sign is read, then decimal
  digits up to the first character that is none. No digit gives 0. A value
  outside \<^verbatim>\<open>long\<close> (64 bits) is clamped, as \<^verbatim>\<open>strtol\<close> does.
\<close>

definition isspace :: "char \<Rightarrow> bool" where
  "isspace c \<longleftrightarrow> c \<in> {CHR 0x20, CHR 0x09, CHR 0x0A, CHR 0x0B, CHR 0x0C, CHR 0x0D}"

definition isdigit :: "char \<Rightarrow> bool" where
  "isdigit c \<longleftrightarrow> 48 \<le> (of_char c :: nat) \<and> (of_char c :: nat) \<le> 57"

fun digits_value :: "char list \<Rightarrow> int \<Rightarrow> int" where
  "digits_value [] acc = acc"
| "digits_value (c # cs) acc =
     (if isdigit c then digits_value cs (acc * 10 + (int (of_char c) - 48)) else acc)"

definition LONG_MAX :: int where "LONG_MAX = 2 ^ 63 - 1"
definition LONG_MIN :: int where "LONG_MIN = - (2 ^ 63)"

definition clamp_long :: "int \<Rightarrow> int" where
  "clamp_long v = (if v > LONG_MAX then LONG_MAX else if v < LONG_MIN then LONG_MIN else v)"

definition atol :: "char list \<Rightarrow> int" where
  "atol s =
     (case dropWhile isspace s of
        [] \<Rightarrow> 0
      | c # cs \<Rightarrow>
          if c = CHR ''-'' then clamp_long (- digits_value cs 0)
          else if c = CHR ''+'' then clamp_long (digits_value cs 0)
          else clamp_long (digits_value (c # cs) 0))"

section \<open>The connector\<close>

text \<open>
  The driver is a parameter of the model: its answers to the k-th
  \<^verbatim>\<open>SQLConnect\<close>, \<^verbatim>\<open>SQLExecDirect\<close> and \<^verbatim>\<open>SQLFetch\<close> call of the
  process. The answer to a connect covers the calls made around it: the two
  handle allocations (return code and the handle left in \<^verbatim>\<open>data\<close>), the
  environment attribute, the diagnostics read after a failure, and the
  content of the block \<^verbatim>\<open>malloc\<close> hands to \<^verbatim>\<open>addNewConnection\<close>.
\<close>

record connect_answer =
  env_ret :: SQLRETURN
  env_handle :: handle
  attr_ret :: SQLRETURN
  attr_diags :: "diag_answer list"
  dbc_ret :: SQLRETURN
  dbc_handle :: handle
  dbc_diags :: "diag_answer list"
  connect_ret :: SQLRETURN
  connect_diags :: "diag_answer list"
  malloc_raw :: "char list"

text \<open>
  The answer to \<^verbatim>\<open>SQLDescribeCol\<close> for one column, with the content of the
  buffer \<^verbatim>\<open>palloc\<close> returns for it.
\<close>

record column_answer =
  describe_ret :: SQLRETURN
  describe_diags :: "diag_answer list"
  data_type :: int
  column_size :: nat
  palloc_raw :: string

text \<open>
  The answer to an execute: the statement handle allocated for it, the return
  code, the diagnostics of a failure, and the description of the result set
  (\<^verbatim>\<open>SQLNumResultCols\<close>, \<^verbatim>\<open>SQLDescribeCol\<close>).
\<close>

record exec_answer =
  stmt_handle :: handle
  exec_ret :: SQLRETURN
  exec_diags :: "diag_answer list"
  numcols_ret :: SQLRETURN
  numcols_diags :: "diag_answer list"
  numcols :: nat
  describe_col :: "nat \<Rightarrow> column_answer"

text \<open>
  The answer to \<^verbatim>\<open>SQLGetData\<close> for one column of the current row: the
  return code, the text written to the column's buffer (\<open>None\<close>: the buffer
  is left alone), and the length indicator.
\<close>

record getdata_answer =
  getdata_ret :: SQLRETURN
  getdata_text :: "string option"
  getdata_indicator :: SQLLEN
  getdata_diags :: "diag_answer list"

record fetch_answer =
  fetch_ret :: SQLRETURN
  fetch_diags :: "diag_answer list"
  fetch_col :: "nat \<Rightarrow> getdata_answer"

record driver =
  drivers_env_ret :: SQLRETURN
  drivers_env :: handle
  connect_resp :: "nat \<Rightarrow> connect_answer"
  exec_resp :: "nat \<Rightarrow> exec_answer"
  fetch_resp :: "nat \<Rightarrow> fetch_answer"

text \<open>
  What the host's catalog gives for the foreign table: the options of the
  table, of its server and of the user mapping, and \<^verbatim>\<open>GetUserId()\<close>.
\<close>

record catalog =
  table_options :: "DefElem list"
  server_options :: "DefElem list"
  mapping_options :: "DefElem list"
  user_id :: Oid

record db2ColumnDesc =
  buf :: string
  columnsize :: nat
  isNumber :: bool

text \<open>
  \<^verbatim>\<open>struct db2PrivateData\<close>. A column's buffer is modelled by the C string
  it holds; an element of \<^verbatim>\<open>values\<close> is NULL (\<open>None\<close>) or the string in
  the column's buffer.
\<close>

record db2PrivateData =
  data_env :: handle
  data_dbc :: handle
  data_stmt :: handle
  data_no_columns :: nat
  data_columnsbuf :: "db2ColumnDesc list"
  data_cached :: "string option"
  data_values :: "string option list"

text \<open>The local variables the option loop of \<^verbatim>\<open>getConnection\<close> fills.\<close>

record conn_options =
  opt_dsn :: "string option"
  opt_username :: "string option"
  opt_password :: "string option"
  opt_cached :: "string option"
  opt_query :: "string option"

fun scan_options :: "DefElem list \<Rightarrow> conn_options \<Rightarrow> conn_options" where
  "scan_options [] acc = acc"
| "scan_options (def # rest) acc =
     scan_options rest
       (if defname def = ''dsn'' then acc\<lparr>opt_dsn := Some (defarg def)\<rparr>
        else if defname def = ''cached'' then acc\<lparr>opt_cached := Some (defarg def)\<rparr>
        else if defname def = ''password'' then acc\<lparr>opt_password := Some (defarg def)\<rparr>
        else if defname def = ''username'' then acc\<lparr>opt_username := Some (defarg def)\<rparr>
        else if defname def = ''sql_query'' then acc\<lparr>opt_query := Some (defarg def)\<rparr>
        else acc)"

text \<open>
  The option loop of \<^verbatim>\<open>getConnection\<close> over the concatenated option lists.
  \<^verbatim>\<open>*query\<close> keeps the caller's value when no \<^verbatim>\<open>sql_query\<close> is given.
\<close>

definition resolve_options :: "catalog \<Rightarrow> string option \<Rightarrow> conn_options" where
  "resolve_options cat query =
     scan_options (table_options cat @ server_options cat @ mapping_options cat)
       \<lparr>opt_dsn = None, opt_username = None, opt_password = None,
        opt_cached = None, opt_query = query\<rparr>"

text \<open>
  The conversion \<^verbatim>\<open>%s\<close> of the message formatter: the characters of the
  string, or \<^verbatim>\<open>(null)\<close> for a NULL pointer.
\<close>

definition fmt_string :: "string option \<Rightarrow> string" where
  "fmt_string s = (case s of None \<Rightarrow> ''(null)'' | Some t \<Rightarrow> cstr t)"

text \<open>
  \<^verbatim>\<open>getConnection\<close>. The result is the updated \<^verbatim>\<open>data\<close> and
  \<^verbatim>\<open>*query\<close>, or the error raised; the process state is returned in both
  cases.
\<close>

definition getConnection ::
  "driver \<Rightarrow> catalog \<Rightarrow> db2PrivateData \<Rightarrow> string option \<Rightarrow> world \<Rightarrow>
     (error + db2PrivateData \<times> string option) \<times> world" where
  "getConnection drv cat data query w =
     (let opts = resolve_options cat query;
          data1 = data\<lparr>data_cached := opt_cached opts\<rparr>
      in case findConnection (opt_dsn opts) (user_id cat) (cache w) of
           Inl u \<Rightarrow> (Inl u, w)
         | Inr (Some e) \<Rightarrow> (Inr (data1\<lparr>data_env := env e, data_dbc := dbc e\<rparr>, opt_query opts), w)
         | Inr None \<Rightarrow>
             (let a = connect_resp drv (connects w);
                  data2 = data1\<lparr>data_env := env_handle a, data_dbc := dbc_handle a\<rparr>;
                  w1 = (if \<not> SQL_SUCCEEDED (env_ret a)
                        then lognotice ''Cannot allocate SQL_HANDLE_ENV'' w else w);
                  w2 = (if \<not> SQL_SUCCEEDED (attr_ret a)
                        then snd (extract_error ''SQL_ATTR_ODBC_VERSION'' (attr_diags a) False
                                    (lognotice ''Cannot set SQL_ATTR_ODBC_VERSION'' w1))
                        else w1);
                  w3 = (if \<not> SQL_SUCCEEDED (dbc_ret a)
                        then snd (extract_error ''SQLAllocHandle SQL_HANDLE_DBC'' (dbc_diags a) False
                                    (lognotice ''Cannot allocate SQL_HANDLE_DBC'' w2))
                        else w2);
                  w4 = w3\<lparr>connects := connects w3 + 1\<rparr>
              in if SQL_SUCCEEDED (connect_ret a) then
                   (case opt_cached opts of
                      None \<Rightarrow> (Inr (data2, opt_query opts), w4)
                    | Some tok \<Rightarrow>
                        (case addNewConnection (malloc_raw a) (opt_dsn opts) (user_id cat)
                                (data_env data2) (data_dbc data2) w4 of
                           Inl u \<Rightarrow> (Inl u, w4)
                         | Inr w5 \<Rightarrow> (Inr (data2, opt_query opts), w5)))
                 else
                   (Inl (PgError ERRCODE_FDW_UNABLE_TO_ESTABLISH_CONNECTION
                           (''cannot connect to odbc dsn '' @ fmt_string (opt_dsn opts))
                           ''Check connection data or make sure that target database is online''),
                    snd (extract_error ''SQLDriverConnect'' (connect_diags a) False w4))))"

text \<open>
  \<^verbatim>\<open>closeConnection\<close>: a connection that is not cached is disconnected and
  its two handles are freed.
\<close>

definition closeConnection :: "db2PrivateData \<Rightarrow> world \<Rightarrow> world" where
  "closeConnection data w =
     (case data_cached data of
        None \<Rightarrow> w\<lparr>freed := freed w @
                    [(SQL_HANDLE_DBC, data_dbc data), (SQL_HANDLE_ENV, data_env data)]\<rparr>
      | Some tok \<Rightarrow> w)"

section \<open>The scan engine\<close>

text \<open>
  \<^verbatim>\<open>list_drivers\<close>: an environment handle of its own is allocated, with a
  notice when that fails, and freed again; the data sources listed in between
  go to the debug output only.
\<close>

definition list_drivers :: "driver \<Rightarrow> world \<Rightarrow> world" where
  "list_drivers drv w =
     (let w1 = (if \<not> SQL_SUCCEEDED (drivers_env_ret drv)
                then lognotice ''Cannot allocate SQL_HANDLE_ENV'' w else w)
      in w1\<lparr>freed := freed w1 @ [(SQL_HANDLE_ENV, drivers_env drv)]\<rparr>)"

text \<open>
  The \<^verbatim>\<open>while (retry < RETRYNUMB)\<close> loop of \<^verbatim>\<open>db2_BeginForeignScan\<close>.
  It ends with the variable \<^verbatim>\<open>failure\<close>, \<^verbatim>\<open>data\<close> and \<^verbatim>\<open>query\<close>, or
  with the error \<^verbatim>\<open>getConnection\<close> raised. \<^verbatim>\<open>failure\<close> is 1 from the
  start and 0 only after a successful execute.
\<close>

function begin_loop ::
  "driver \<Rightarrow> catalog \<Rightarrow> nat \<Rightarrow> db2PrivateData \<Rightarrow> string option \<Rightarrow> world \<Rightarrow>
     (error + int \<times> db2PrivateData \<times> string option) \<times> world" where
  "begin_loop drv cat retry data query w =
     (if retry < RETRYNUMB then
        (case getConnection drv cat data query w of
           (Inl e, w1) \<Rightarrow> (Inl e, w1)
         | (Inr (data1, query1), w1) \<Rightarrow>
             (let a = exec_resp drv (execs w1);
                  data2 = data1\<lparr>data_stmt := stmt_handle a\<rparr>;
                  w2 = w1\<lparr>execs := execs w1 + 1\<rparr>
              in if SQL_SUCCEEDED (exec_ret a) then (Inr (0, data2, query1), w2)
                 else
                   (case extract_error ''Error while executing query'' (exec_diags a) True w2 of
                      (native, w3) \<Rightarrow>
                        (case data_cached data2 of
                           None \<Rightarrow> (Inr (1, data2, query1), w3)
                         | Some tok \<Rightarrow>
                             (let w4 = removeConnection (data_dbc data2) w3;
                                  lcached = atol tok;
                                  lcached = (if lcached = 0 then ANYERROR else lcached)
                              in if lcached = ANYERROR
                                 then begin_loop drv cat (retry + 1) data2 query1 w4
                                 else if Some lcached \<noteq> map_option sint native
                                 then (Inr (1, data2, query1), w4)
                                 else begin_loop drv cat (retry + 1) data2 query1 w4)))))
      else (Inr (1, data, query), w))"
  by pat_completeness auto
termination
  by (relation "measure (\<lambda>(drv, cat, retry, data, query, w). RETRYNUMB - retry)") auto

text \<open>
  The type codes of \<^verbatim>\<open>sql.h\<close> that \<^verbatim>\<open>db2_BeginForeignScan\<close> takes for
  numbers.
\<close>

definition SQL_NUMERIC :: int where "SQL_NUMERIC = 2"
definition SQL_DECIMAL :: int where "SQL_DECIMAL = 3"
definition SQL_FLOAT :: int where "SQL_FLOAT = 6"
definition SQL_REAL :: int where "SQL_REAL = 7"
definition SQL_DOUBLE :: int where "SQL_DOUBLE = 8"

text \<open>
  The column loop of \<^verbatim>\<open>db2_BeginForeignScan\<close>, over the column numbers
  \<open>0 ..< no_columns\<close>: the arrays \<^verbatim>\<open>columnsbuf\<close> and \<^verbatim>\<open>values\<close> are
  filled from the front.
\<close>

fun describe_columns ::
  "exec_answer \<Rightarrow> string option \<Rightarrow> nat list \<Rightarrow> db2PrivateData \<Rightarrow> world \<Rightarrow>
     (error + db2PrivateData) \<times> world" where
  "describe_columns a query [] data w = (Inr data, w)"
| "describe_columns a query (i # rest) data w =
     (let c = describe_col a i in
      if \<not> SQL_SUCCEEDED (describe_ret c) then
        (Inl (PgError ERRCODE_FDW_ERROR
                (''Cannot retrieve column description for query '' @ fmt_string query)
                ''Check query syntax''),
         snd (extract_error ''SQLDescribeCol'' (describe_diags c) False w))
      else
        describe_columns a query rest
          (data\<lparr>data_columnsbuf := data_columnsbuf data @
                    [\<lparr>buf = palloc_raw c, columnsize = column_size c,
                      isNumber = (data_type c = SQL_DECIMAL \<or> data_type c = SQL_NUMERIC \<or>
                                  data_type c = SQL_REAL \<or> data_type c = SQL_DOUBLE \<or>
                                  data_type c = SQL_FLOAT)\<rparr>],
                 data_values := data_values data @ [Some (palloc_raw c)]\<rparr>)
          w)"

text \<open>
  \<^verbatim>\<open>db2_BeginForeignScan\<close> after the loop: the error report when
  \<^verbatim>\<open>failure\<close> is 1, else the description of the result columns of the
  statement executed last. An error raised inside the loop has left the
  function already.
\<close>

definition begin_finish ::
  "driver \<Rightarrow> (error + int \<times> db2PrivateData \<times> string option) \<times> world \<Rightarrow>
     (error + db2PrivateData) \<times> world" where
  "begin_finish drv r =
     (case r of
        (Inl e, w1) \<Rightarrow> (Inl e, w1)
      | (Inr (failure, data, query), w1) \<Rightarrow>
          if failure = 1 then
            (Inl (PgError ERRCODE_FDW_ERROR (''Cannot execute query '' @ fmt_string query)
                    ''Check query syntax''), w1)
          else
            (let a = exec_resp drv (execs w1 - 1) in
             if \<not> SQL_SUCCEEDED (numcols_ret a) then
               (Inl (PgError ERRCODE_FDW_ERROR
                       (''Cannot retrieve number of columns '' @ fmt_string query)
                       ''Check query syntax''),
                snd (extract_error ''SQLNumResultCols'' (numcols_diags a) False w1))
             else
               describe_columns a query [0 ..< numcols a]
                 (data\<lparr>data_no_columns := numcols a, data_columnsbuf := [], data_values := []\<rparr>)
                 w1))"

text \<open>
  \<^verbatim>\<open>db2_BeginForeignScan\<close>. \<open>data0\<close> is the block \<^verbatim>\<open>palloc\<close> returns for
  \<^verbatim>\<open>data\<close>. The result is \<^verbatim>\<open>node->fdw_state\<close>.
\<close>

definition db2_BeginForeignScan ::
  "driver \<Rightarrow> catalog \<Rightarrow> db2PrivateData \<Rightarrow> world \<Rightarrow> (error + db2PrivateData) \<times> world" where
  "db2_BeginForeignScan drv cat data0 w =
     begin_finish drv (begin_loop drv cat 0 data0 None (list_drivers drv w))"

text \<open>
  \<^verbatim>\<open>strrchr\<close> on the string of a buffer: the index of the last occurrence,
  if there is one.
\<close>

fun strrchr :: "char list \<Rightarrow> char \<Rightarrow> nat option" where
  "strrchr [] c = None"
| "strrchr (x # xs) c =
     (case strrchr xs c of
        Some p \<Rightarrow> Some (Suc p)
      | None \<Rightarrow> if x = c then Some 0 else None)"

text \<open>The loop \<^verbatim>\<open>while ((p = strrchr(values[i], ','))) *p = '.';\<close>\<close>

function replace_commas :: "char list \<Rightarrow> char list" where
  "replace_commas s =
     (case strrchr s (CHR '','') of
        None \<Rightarrow> s
      | Some p \<Rightarrow> replace_commas (s[p := CHR ''.'']))"
  by pat_completeness auto
termination
proof (relation "measure (\<lambda>s. length (filter (\<lambda>c. c = CHR '','') s))")
  show "wf (measure (\<lambda>s. length (filter (\<lambda>c. c = CHR '','') s)))"
    by simp
next
  fix s :: "char list" and p
  assume "strrchr s (CHR '','') = Some p"
  then have "length (filter (\<lambda>c. c = CHR '','') (s[p := CHR ''.''])) <
             length (filter (\<lambda>c. c = CHR '','') s)"
  proof (induction s arbitrary: p)
    case Nil
    then show ?case by simp
  next
    case (Cons x xs)
    then show ?case
      by (cases "strrchr xs (CHR '','')") (auto split: if_splits)
  qed
  then show "(s[p := CHR ''.''], s) \<in> measure (\<lambda>s. length (filter (\<lambda>c. c = CHR '','') s))"
    by simp
qed

definition SQL_NULL_DATA :: int where "SQL_NULL_DATA = - 1"

text \<open>
  The column loop of \<^verbatim>\<open>db2_IterateForeignScan\<close>, over the column numbers
  \<open>0 ..< no_columns\<close>. The indicator is a \<^verbatim>\<open>SQLLEN\<close> (64 bits) and is cast
  to \<^verbatim>\<open>int\<close> (32 bits) for the comparison with \<^verbatim>\<open>SQL_NULL_DATA\<close>. The
  return code of \<^verbatim>\<open>SQLGetData\<close> is looked at after the cell is set. An
  index outside the arrays is undefined.
\<close>

fun iterate_columns ::
  "(nat \<Rightarrow> getdata_answer) \<Rightarrow> nat list \<Rightarrow> db2PrivateData \<Rightarrow> world \<Rightarrow>
     (error + db2PrivateData) \<times> world" where
  "iterate_columns col [] data w = (Inr data, w)"
| "iterate_columns col (i # rest) data w =
     (if \<not> (i < length (data_columnsbuf data) \<and> i < length (data_values data))
      then (Inl (Undefined ''index outside columnsbuf or values''), w)
      else
        (let a = col i;
             cd = data_columnsbuf data ! i;
             fetched = (case getdata_text a of None \<Rightarrow> buf cd | Some t \<Rightarrow> t);
             isnull = (sint (ucast (getdata_indicator a) :: 32 word) = SQL_NULL_DATA);
             text = (if \<not> isnull \<and> isNumber cd then replace_commas fetched else fetched);
             data' = data\<lparr>data_columnsbuf := (data_columnsbuf data)[i := cd\<lparr>buf := text\<rparr>],
                          data_values := (data_values data)[i := (if isnull then None else Some text)]\<rparr>
         in if \<not> SQL_SUCCEEDED (getdata_ret a) then
              (Inl (PgError ERRCODE_FDW_ERROR ''Cannot get data for next column''
                      ''Check query syntax''),
               snd (extract_error ''SQLGetData'' (getdata_diags a) False w))
            else iterate_columns col rest data' w))"

text \<open>
  \<^verbatim>\<open>db2_IterateForeignScan\<close>: the updated \<^verbatim>\<open>data\<close> and the row handed to
  \<^verbatim>\<open>BuildTupleFromCStrings\<close> (the array \<^verbatim>\<open>values\<close>), or \<open>None\<close> at the end
  of the data.
\<close>

definition db2_IterateForeignScan ::
  "driver \<Rightarrow> db2PrivateData \<Rightarrow> world \<Rightarrow>
     (error + db2PrivateData \<times> string option list option) \<times> world" where
  "db2_IterateForeignScan drv data w =
     (let a = fetch_resp drv (fetches w);
          w1 = w\<lparr>fetches := fetches w + 1\<rparr>
      in if fetch_ret a = SQL_NO_DATA_FOUND then (Inr (data, None), w1)
         else if \<not> SQL_SUCCEEDED (fetch_ret a) then
           (Inl (PgError ERRCODE_FDW_ERROR ''Cannot fetch next row'' ''Check query syntax''),
            snd (extract_error ''SQLFetch'' (fetch_diags a) False w1))
         else
           (case iterate_columns (fetch_col a) [0 ..< data_no_columns data] data w1 of
              (Inl e, w2) \<Rightarrow> (Inl e, w2)
            | (Inr data', w2) \<Rightarrow> (Inr (data', Some (data_values data')), w2)))"

text \<open>\<^verbatim>\<open>db2_EndForeignScan\<close>: the statement handle is freed, then \<^verbatim>\<open>closeConnection\<close>.\<close>

definition db2_EndForeignScan :: "db2PrivateData \<Rightarrow> world \<Rightarrow> world" where
  "db2_EndForeignScan data w =
     closeConnection data (w\<lparr>freed := freed w @ [(SQL_HANDLE_STMT, data_stmt data)]\<rparr>)"

section \<open>Reference functions for the statements\<close>

text \<open>
  The answers \<^verbatim>\<open>extract_error\<close> gets to see as records: those answered
  \<^verbatim>\<open>SQL_SUCCESS\<close> before the first answer that is not \<^verbatim>\<open>SQL_SUCCESS\<close>,
  and that one too when it is \<^verbatim>\<open>SQL_SUCCESS_WITH_INFO\<close>.
\<close>

fun retrieved :: "diag_answer list \<Rightarrow> diag_answer list" where
  "retrieved [] = []"
| "retrieved (a # rest) =
     (if diag_ret a = SQL_SUCCESS then a # retrieved rest
      else if diag_ret a = SQL_SUCCESS_WITH_INFO then [a]
      else [])"

text \<open>The notice lines of a list of records, numbered from \<open>i + 1\<close>.\<close>

fun diag_lines :: "int \<Rightarrow> diag_answer list \<Rightarrow> notice list" where
  "diag_lines i [] = []"
| "diag_lines i (a # rest) =
     DiagLine (diag_state a) (i + 1) (sint (diag_native a)) (diag_text a) # diag_lines (i + 1) rest"

text \<open>
  The native code of the first record whose native code is not
  \<^verbatim>\<open>ANYERROR\<close>, and \<^verbatim>\<open>ANYERROR\<close> when there is none.
\<close>

fun first_native :: "diag_answer list \<Rightarrow> SQLINTEGER" where
  "first_native [] = word_of_int ANYERROR"
| "first_native (a # rest) =
     (if sint (diag_native a) \<noteq> ANYERROR then diag_native a else first_native rest)"

text \<open>Every comma of a text replaced by a point.\<close>

definition commas_to_points :: "char list \<Rightarrow> char list" where
  "commas_to_points s = map (\<lambda>c. if c = CHR '','' then CHR ''.'' else c) s"

text \<open>
  The text in the buffer of column \<open>i\<close> after \<^verbatim>\<open>SQLGetData\<close>: what the
  driver wrote, or what the buffer held before when the driver wrote nothing.
\<close>

definition fetched_text :: "(nat \<Rightarrow> getdata_answer) \<Rightarrow> db2PrivateData \<Rightarrow> nat \<Rightarrow> string" where
  "fetched_text col data i =
     (case getdata_text (col i) of None \<Rightarrow> buf (data_columnsbuf data ! i) | Some t \<Rightarrow> t)"

text \<open>
  The cell \<^verbatim>\<open>db2_IterateForeignScan\<close> is to hand on for column \<open>i\<close>: NULL
  when the indicator, cast to \<^verbatim>\<open>int\<close>, is \<^verbatim>\<open>SQL_NULL_DATA\<close>, else the
  text in the buffer, its commas replaced when the column is flagged as a number.
\<close>

definition emitted_cell :: "(nat \<Rightarrow> getdata_answer) \<Rightarrow> db2PrivateData \<Rightarrow> nat \<Rightarrow> string option" where
  "emitted_cell col data i =
     (if sint (ucast (getdata_indicator (col i)) :: 32 word) = SQL_NULL_DATA then None
      else Some (if isNumber (data_columnsbuf data ! i)
                 then commas_to_points (fetched_text col data i)
                 else fetched_text col data i))"

section \<open>A scenario\<close>

text \<open>
  The specification's scenario: data source \<open>D1\<close>, query \<open>SELECT 1\<close>, an
  optional \<open>cached\<close> token. The driver's k-th connect succeeds when
  \<open>connect_ok k\<close>; its k-th execute succeeds when \<open>exec_code k\<close> is
  \<open>None\<close> and else fails with one diagnostic record of that native code.
\<close>

definition scenario_catalog :: "string option \<Rightarrow> catalog" where
  "scenario_catalog tok =
     \<lparr>table_options = [\<lparr>defname = ''sql_query'', defarg = ''SELECT 1''\<rparr>],
      server_options =
        \<lparr>defname = ''dsn'', defarg = ''D1''\<rparr> #
          (case tok of None \<Rightarrow> [] | Some t \<Rightarrow> [\<lparr>defname = ''cached'', defarg = t\<rparr>]),
      mapping_options =
        [\<lparr>defname = ''username'', defarg = ''u''\<rparr>, \<lparr>defname = ''password'', defarg = ''p''\<rparr>],
      user_id = 10\<rparr>"

definition scenario_driver :: "(nat \<Rightarrow> bool) \<Rightarrow> (nat \<Rightarrow> int option) \<Rightarrow> driver" where
  "scenario_driver connect_ok exec_code =
     \<lparr>drivers_env_ret = SQL_SUCCESS, drivers_env = 0,
      connect_resp = (\<lambda>k.
        \<lparr>env_ret = SQL_SUCCESS, env_handle = 2 * k + 1,
         attr_ret = SQL_SUCCESS, attr_diags = [],
         dbc_ret = SQL_SUCCESS, dbc_handle = 2 * k + 2, dbc_diags = [],
         connect_ret = (if connect_ok k then SQL_SUCCESS else SQL_ERROR),
         connect_diags = [],
         malloc_raw = replicate DSN_MAX_LEN (CHR ''x'')\<rparr>),
      exec_resp = (\<lambda>k.
        \<lparr>stmt_handle = 100 + k,
         exec_ret = (case exec_code k of None \<Rightarrow> SQL_SUCCESS | Some c \<Rightarrow> SQL_ERROR),
         exec_diags =
           (case exec_code k of
              None \<Rightarrow> []
            | Some c \<Rightarrow> [\<lparr>diag_ret = SQL_SUCCESS, diag_state = ''40001'',
                          diag_native = word_of_int c, diag_text = ''failed''\<rparr>]),
         numcols_ret = SQL_SUCCESS, numcols_diags = [], numcols = 1,
         describe_col = (\<lambda>i.
           \<lparr>describe_ret = SQL_SUCCESS, describe_diags = [], data_type = SQL_DECIMAL,
            column_size = 16, palloc_raw = []\<rparr>)\<rparr>),
      fetch_resp = (\<lambda>k.
        \<lparr>fetch_ret = SQL_NO_DATA_FOUND, fetch_diags = [],
         fetch_col = (\<lambda>i.
           \<lparr>getdata_ret = SQL_SUCCESS, getdata_text = None, getdata_indicator = 0,
            getdata_diags = []\<rparr>)\<rparr>)\<rparr>"

definition scenario_world :: world where
  "scenario_world =
     \<lparr>cache = [], freed = [], notices = [], connects = 0, execs = 0, fetches = 0\<rparr>"

definition scenario_data :: db2PrivateData where
  "scenario_data =
     \<lparr>data_env = 0, data_dbc = 0, data_stmt = 0, data_no_columns = 0, data_columnsbuf = [],
      data_cached = None, data_values = []\<rparr>"

text \<open>
  A row: the driver's next fetch succeeds and answers \<open>cells i\<close> (text and
  indicator) for column \<open>i\<close>; the scan has one column per flag, numeric where
  the flag is set, each buffer holding \<open>old\<close> from the row before.
\<close>

definition scenario_fetch :: "(nat \<Rightarrow> string option \<times> SQLLEN) \<Rightarrow> driver" where
  "scenario_fetch cells =
     (scenario_driver (\<lambda>k. True) (\<lambda>k. None))
       \<lparr>fetch_resp := (\<lambda>k.
          \<lparr>fetch_ret = SQL_SUCCESS, fetch_diags = [],
           fetch_col = (\<lambda>i.
             \<lparr>getdata_ret = SQL_SUCCESS, getdata_text = fst (cells i),
              getdata_indicator = snd (cells i), getdata_diags = []\<rparr>)\<rparr>)\<rparr>"

definition scenario_columns :: "bool list \<Rightarrow> db2PrivateData" where
  "scenario_columns flags =
     scenario_data
       \<lparr>data_no_columns := length flags,
        data_columnsbuf := map (\<lambda>b. \<lparr>buf = ''old'', columnsize = 16, isNumber = b\<rparr>) flags,
        data_values := map (\<lambda>b. Some ''old'') flags\<rparr>"

text \<open>
  Drivers of the scenario: every execute fails with native code \<open>c\<close>; the
  same with only the first connect succeeding; no connect succeeds.
\<close>

definition driver_exec_fails :: "int \<Rightarrow> driver" where
  "driver_exec_fails c = scenario_driver (\<lambda>k. True) (\<lambda>k. Some c)"

definition driver_reconnect_fails :: "int \<Rightarrow> driver" where
  "driver_reconnect_fails c = scenario_driver (\<lambda>k. k = 0) (\<lambda>k. Some c)"

definition driver_connect_fails :: driver where
  "driver_connect_fails = scenario_driver (\<lambda>k. False) (\<lambda>k. None)"


definition cells_null :: "nat \<Rightarrow> string option \<times> SQLLEN" where
  "cells_null i = (if i = 0 then (None, - 1) else (Some ''abc'', 3))"

definition cells_wide :: "nat \<Rightarrow> string option \<times> SQLLEN" where
  "cells_wide i = (if i = 0 then (Some ''1,5'', 3) else (Some ''abc'', 4294967295))"


text \<open>
  Diagnostics of two records: the first answered with
  \<^verbatim>\<open>SQL_SUCCESS_WITH_INFO\<close>; the first with native code -1.
\<close>

definition diags_truncated :: "diag_answer list" where
  "diags_truncated =
     [\<lparr>diag_ret = SQL_SUCCESS_WITH_INFO, diag_state = ''01004'', diag_native = 5,
       diag_text = ''first''\<rparr>,
      \<lparr>diag_ret = SQL_SUCCESS, diag_state = ''42S02'', diag_native = 7,
       diag_text = ''second''\<rparr>]"

definition diags_minus_one :: "diag_answer list" where
  "diags_minus_one =
     [\<lparr>diag_ret = SQL_SUCCESS, diag_state = ''08001'', diag_native = - 1,
       diag_text = ''first''\<rparr>,
      \<lparr>diag_ret = SQL_SUCCESS, diag_state = ''42S02'', diag_native = 7,
       diag_text = ''second''\<rparr>]"

text \<open>
  Cache entries of the scenario: \<open>D1\<close> and \<open>D2\<close> as \<^verbatim>\<open>addNewConnection\<close>
  stores them in a block of zero bytes, and a name of 127 characters as it
  is stored in a block of bytes \<open>x\<close>.
\<close>

definition entry_D1 :: db2ConnectionCacheEntry where
  "entry_D1 = \<lparr>dsn_name = ''D1'' @ replicate 126 NUL, userId = 10, env = 1, dbc = 2\<rparr>"

definition entry_D2 :: db2ConnectionCacheEntry where
  "entry_D2 = \<lparr>dsn_name = ''D2'' @ replicate 126 NUL, userId = 10, env = 3, dbc = 4\<rparr>"

definition dsn_127 :: string where
  "dsn_127 = replicate 127 (CHR ''a'')"

definition entry_127 :: db2ConnectionCacheEntry where
  "entry_127 = \<lparr>dsn_name = dsn_127 @ ''x'', userId = 10, env = 1, dbc = 2\<rparr>"

section \<open>Properties\<close>

declare begin_loop.simps [simp del]
declare replace_commas.simps [simp del]

lemma cstr_no_NUL: "NUL \<notin> set s \<Longrightarrow> cstr s = s"
  by (auto simp: cstr_def)


subsection \<open>The connection cache\<close>

lemma strcmp_eq_terminated: "strcmp_eq (cstr d @ NUL # rest) d = Some True"
  by (induction d) (auto simp: cstr_def)

lemma strncpy_short:
  assumes "length (cstr d) < n"
  shows "strncpy dest d n = cstr d @ NUL # replicate (n - Suc (length (cstr d))) NUL @ drop n dest"
proof -
  have "replicate (n - length (cstr d)) NUL = NUL # replicate (n - Suc (length (cstr d))) NUL"
    using assms by (cases "n - length (cstr d)") auto
  then show ?thesis
    using assms by (simp add: strncpy_def)
qed

lemma strcmp_eq_stored_short:
  "length (cstr d) < DSN_MAX_LEN - 1 \<Longrightarrow>
     strcmp_eq (strncpy raw d (DSN_MAX_LEN - 1)) d = Some True"
  by (simp add: strncpy_short strcmp_eq_terminated)

text \<open>
  A name of at most 126 characters is found again after it was added, and the
  entry found is the one added last.
\<close>

lemma find_after_add_short:
  assumes "length (cstr d) \<le> 126"
  shows "\<exists>w'. addNewConnection raw (Some d) uid henv hdbc w = Inr w' \<and>
           (\<exists>e. findConnection (Some d) uid (cache w') = Inr (Some e) \<and>
                env e = henv \<and> dbc e = hdbc \<and> e = hd (cache w'))"
  using assms strcmp_eq_stored_short [of d raw]
  by (simp add: addNewConnection_def DSN_MAX_LEN_def)

text \<open>
  A name of exactly 127 characters fills the 127 bytes \<^verbatim>\<open>strncpy\<close> writes;
  the comparison then depends on the byte the allocation left at the end.
\<close>

lemma strcmp_eq_unterminated:
  "NUL \<notin> set d \<Longrightarrow> strcmp_eq (d @ [g]) d = Some (g = NUL)"
  by (induction d) auto

lemma strcmp_eq_stored_127:
  assumes "NUL \<notin> set d" "length d = 127" "length raw = DSN_MAX_LEN"
  shows "strcmp_eq (strncpy raw d (DSN_MAX_LEN - 1)) d = Some (raw ! 127 = NUL)"
proof -
  have "drop 127 raw = raw ! 127 # drop (Suc 127) raw"
    using assms(3) by (intro Cons_nth_drop_Suc [symmetric]) (simp add: DSN_MAX_LEN_def)
  then have "drop 127 raw = [raw ! 127]"
    using assms(3) by (simp add: DSN_MAX_LEN_def)
  then have "strncpy raw d (DSN_MAX_LEN - 1) = d @ [raw ! 127]"
    using assms(1,2) by (simp add: strncpy_def cstr_no_NUL DSN_MAX_LEN_def)
  then show ?thesis
    using assms(1) by (simp add: strcmp_eq_unterminated)
qed

text \<open>
  What \<^verbatim>\<open>removeConnection\<close> leaves in the cache: the entries after the last
  one with the handle, when there is one.
\<close>

lemma removeConnection_loop_cache:
  "cache (removeConnection_loop h None es w) =
     (if h \<in> dbc ` set es then rev (takeWhile (\<lambda>e. dbc e \<noteq> h) (rev es)) else cache w)"
proof (induction es arbitrary: w)
  case Nil
  then show ?case by simp
next
  case (Cons e es)
  show ?case
  proof (cases "h \<in> dbc ` set es")
    case True
    then obtain x where "x \<in> set (rev es)" "\<not> dbc x \<noteq> h" by auto
    then have "takeWhile (\<lambda>e. dbc e \<noteq> h) (rev es @ [e]) = takeWhile (\<lambda>e. dbc e \<noteq> h) (rev es)"
      by (rule takeWhile_append1)
    with True Cons.IH show ?thesis by simp
  next
    case False
    then have "takeWhile (\<lambda>e. dbc e \<noteq> h) (rev es @ [e]) = rev es @ takeWhile (\<lambda>e. dbc e \<noteq> h) [e]"
      by (intro takeWhile_append2) auto
    with False Cons.IH show ?thesis by auto
  qed
qed

lemma removeConnection_cache:
  "cache (removeConnection h w) =
     (if h \<in> dbc ` set (cache w) then rev (takeWhile (\<lambda>e. dbc e \<noteq> h) (rev (cache w))) else cache w)"
  by (simp add: removeConnection_def removeConnection_loop_cache)

lemma removeConnection_no_match_left: "h \<notin> dbc ` set (cache (removeConnection h w))"
proof -
  have "\<forall>x \<in> set (takeWhile (\<lambda>e. dbc e \<noteq> h) (rev (cache w))). dbc x \<noteq> h"
    by (auto dest: set_takeWhileD)
  then show ?thesis
    by (auto simp: removeConnection_cache)
qed


subsection \<open>Diagnostics\<close>

lemma sint_ANYERROR [simp]: "sint (word_of_int ANYERROR :: 32 word) = ANYERROR"
  by (simp add: ANYERROR_def)

lemma sint_eq_ANYERROR: "sint (v :: 32 word) = ANYERROR \<longleftrightarrow> v = word_of_int ANYERROR"
proof
  assume "sint v = ANYERROR"
  then have "word_of_int (sint v) = (word_of_int ANYERROR :: 32 word)" by simp
  then show "v = word_of_int ANYERROR" by simp
next
  assume "v = word_of_int ANYERROR"
  then show "sint v = ANYERROR" by simp
qed

lemma extract_error_loop_None:
  "extract_error_loop diags i None out = (None, out @ diag_lines i (retrieved diags))"
  by (induction diags arbitrary: i out)
    (auto simp: Let_def SQL_SUCCEEDED_def SQL_SUCCESS_def SQL_SUCCESS_WITH_INFO_def)

lemma extract_error_loop_Some:
  "extract_error_loop diags i (Some v) out =
     (Some (if sint v \<noteq> ANYERROR then v else first_native (retrieved diags)),
      out @ diag_lines i (retrieved diags))"
  by (induction diags arbitrary: i out v)
    (auto simp: Let_def SQL_SUCCEEDED_def SQL_SUCCESS_def SQL_SUCCESS_WITH_INFO_def
      sint_eq_ANYERROR)

lemma extract_error_eq:
  "extract_error fn diags want w =
     (if want then Some (first_native (retrieved diags)) else None,
      w\<lparr>notices := notices w @ DiagHeader fn # diag_lines 0 (retrieved diags)\<rparr>)"
  by (simp add: extract_error_def extract_error_loop_None extract_error_loop_Some)


subsection \<open>The validator\<close>

lemma ctx_distinct [simp]:
  "ForeignServerRelationId \<noteq> UserMappingRelationId"
  "ForeignServerRelationId \<noteq> ForeignTableRelationId"
  "UserMappingRelationId \<noteq> ForeignTableRelationId"
  "UserMappingRelationId \<noteq> ForeignServerRelationId"
  "ForeignTableRelationId \<noteq> ForeignServerRelationId"
  "ForeignTableRelationId \<noteq> UserMappingRelationId"
  by (simp_all add: ForeignServerRelationId_def UserMappingRelationId_def
      ForeignTableRelationId_def)

lemma find_option_valid:
  "distinct (map optname tab) \<Longrightarrow>
   fst (find_option tab name c) \<longleftrightarrow> (\<exists>opt \<in> set tab. optname opt = name \<and> optcontext opt = c)"
  by (induction tab) (auto simp: rev_image_eqI)

lemma find_option_allow:
  "fst (find_option valid_options name c) \<longleftrightarrow> name \<in> set (allow_list c)"
proof -
  have "distinct (map optname valid_options)"
    by (simp add: valid_options_def)
  from find_option_valid [OF this, of name c] show ?thesis
    unfolding allow_list_def by auto
qed

lemma check_options_ok:
  "check_options opts c = Inr () \<longleftrightarrow> (\<forall>d \<in> set opts. defname d \<in> set (allow_list c))"
  by (induction opts) (auto simp: find_option_allow [symmetric] split: prod.splits)

lemma option_given_iff: "option_given opts name \<longleftrightarrow> name \<in> defname ` set opts"
  by (induction opts) auto

lemma check_required_ok:
  "check_required tab opts c = Inr () \<longleftrightarrow>
     (\<forall>opt \<in> set tab. required opt \<and> optcontext opt = c \<longrightarrow> optname opt \<in> defname ` set opts)"
  by (induction tab) (auto simp: option_given_iff)

lemma check_options_hint:
  "check_options opts c = Inl e \<Longrightarrow> \<exists>code msg. e = PgError code msg (valid_options_hint c)"
  by (induction opts) (auto split: prod.splits if_splits)

lemma check_required_hint:
  "check_required tab opts c = Inl e \<Longrightarrow> \<exists>code msg. e = PgError code msg (valid_options_hint c)"
  by (induction tab) (auto split: prod.splits if_splits)

lemma createValidOptions_join: "createValidOptions c = join_names (allow_list c)"
  by (simp add: createValidOptions_def allow_list_def valid_options_def)

lemma valid_options_hint_eq:
  "valid_options_hint c =
     ''Valid options in this context are: '' @
       (if allow_list c = [] then ''<none>'' else join_names (allow_list c))"
  by (simp add: valid_options_hint_def createValidOptions_join allow_list_def valid_options_def)

text \<open>
  C5. For every option list and every context, the validator returns without
  raising if and only if every supplied option name is in the allow-list of the
  context and every key required for the context is among the supplied names.
  When it raises, the error's hint lists the valid options of the context
  (\<open><none>\<close> when the context has none).
\<close>

theorem validator_accepts_iff:
  "(db2odbc_fdw_validator opts c = Inr () \<longleftrightarrow>
      (\<forall>d \<in> set opts. defname d \<in> set (allow_list c)) \<and>
      (\<forall>k \<in> set (required_keys c). k \<in> defname ` set opts)) \<and>
   (\<forall>e. db2odbc_fdw_validator opts c = Inl e \<longrightarrow>
      (\<exists>code msg. e = PgError code msg
         (''Valid options in this context are: '' @
            (if allow_list c = [] then ''<none>'' else join_names (allow_list c)))))"
proof (intro conjI allI impI)
  have req: "(\<forall>k \<in> set (required_keys c). k \<in> defname ` set opts) \<longleftrightarrow>
     (\<forall>opt \<in> set valid_options. required opt \<and> optcontext opt = c \<longrightarrow>
        optname opt \<in> defname ` set opts)"
    by (auto simp: required_keys_def)
  show "db2odbc_fdw_validator opts c = Inr () \<longleftrightarrow>
      (\<forall>d \<in> set opts. defname d \<in> set (allow_list c)) \<and>
      (\<forall>k \<in> set (required_keys c). k \<in> defname ` set opts)"
    unfolding req check_options_ok [symmetric] check_required_ok [symmetric]
    by (cases "check_options opts c") (auto simp: db2odbc_fdw_validator_def)
next
  fix e
  assume "db2odbc_fdw_validator opts c = Inl e"
  then have "\<exists>code msg. e = PgError code msg (valid_options_hint c)"
    by (cases "check_options opts c")
      (auto simp: db2odbc_fdw_validator_def dest: check_options_hint check_required_hint)
  then show "\<exists>code msg. e = PgError code msg
         (''Valid options in this context are: '' @
            (if allow_list c = [] then ''<none>'' else join_names (allow_list c)))"
    by (simp only: valid_options_hint_eq)
qed

theorem validator_accepts_iff_witness:
  "db2odbc_fdw_validator
     [\<lparr>defname = ''cached'', defarg = ''1205''\<rparr>, \<lparr>defname = ''dsn'', defarg = ''D1''\<rparr>]
     ForeignServerRelationId = Inr () \<and>
   db2odbc_fdw_validator [\<lparr>defname = ''cached'', defarg = ''1205''\<rparr>]
     ForeignServerRelationId \<noteq> Inr () \<and>
   (\<exists>code msg. db2odbc_fdw_validator [\<lparr>defname = ''dsn'', defarg = ''D1''\<rparr>]
      ForeignTableRelationId =
        Inl (PgError code msg ''Valid options in this context are: sql_query''))"
proof (intro conjI)
  show "db2odbc_fdw_validator
     [\<lparr>defname = ''cached'', defarg = ''1205''\<rparr>, \<lparr>defname = ''dsn'', defarg = ''D1''\<rparr>]
     ForeignServerRelationId = Inr ()"
    using validator_accepts_iff
      [of "[\<lparr>defname = ''cached'', defarg = ''1205''\<rparr>, \<lparr>defname = ''dsn'', defarg = ''D1''\<rparr>]"
        ForeignServerRelationId]
    by (simp add: allow_list_def required_keys_def valid_options_def)
  show "db2odbc_fdw_validator [\<lparr>defname = ''cached'', defarg = ''1205''\<rparr>]
     ForeignServerRelationId \<noteq> Inr ()"
    using validator_accepts_iff
      [of "[\<lparr>defname = ''cached'', defarg = ''1205''\<rparr>]" ForeignServerRelationId]
    by (simp add: allow_list_def required_keys_def valid_options_def)
  obtain e where e: "db2odbc_fdw_validator [\<lparr>defname = ''dsn'', defarg = ''D1''\<rparr>]
      ForeignTableRelationId = Inl e"
    by (simp add: db2odbc_fdw_validator_def valid_options_def)
  with validator_accepts_iff
      [of "[\<lparr>defname = ''dsn'', defarg = ''D1''\<rparr>]" ForeignTableRelationId]
  show "\<exists>code msg. db2odbc_fdw_validator [\<lparr>defname = ''dsn'', defarg = ''D1''\<rparr>]
      ForeignTableRelationId =
        Inl (PgError code msg ''Valid options in this context are: sql_query'')"
    by (simp add: allow_list_def valid_options_def)
qed

subsection \<open>Connecting and the retry loop\<close>

lemma removeConnection_loop_fields [simp]:
  "execs (removeConnection_loop h p es w) = execs w"
  "connects (removeConnection_loop h p es w) = connects w"
  "fetches (removeConnection_loop h p es w) = fetches w"
  "notices (removeConnection_loop h p es w) = notices w"
  by (induction es arbitrary: w) auto

lemma removeConnection_fields [simp]:
  "execs (removeConnection h w) = execs w"
  "connects (removeConnection h w) = connects w"
  "fetches (removeConnection h w) = fetches w"
  "notices (removeConnection h w) = notices w"
  by (simp_all add: removeConnection_def)

lemma getConnection_connect_fails:
  assumes "findConnection (opt_dsn (resolve_options cat query)) (user_id cat) (cache w) = Inr None"
      and "\<not> SQL_SUCCEEDED (connect_ret (connect_resp drv (connects w)))"
  shows "\<exists>w'. getConnection drv cat data query w =
           (Inl (PgError ERRCODE_FDW_UNABLE_TO_ESTABLISH_CONNECTION
                  (''cannot connect to odbc dsn '' @ fmt_string (opt_dsn (resolve_options cat query)))
                  ''Check connection data or make sure that target database is online''), w') \<and>
           cache w' = cache w \<and> execs w' = execs w \<and> connects w' = connects w + 1 \<and>
           freed w' = freed w \<and> fetches w' = fetches w"
  using assms
  by (simp add: getConnection_def Let_def extract_error_eq lognotice_def)

lemma getConnection_execs:
  "getConnection drv cat data query w = (r, w') \<Longrightarrow> execs w' = execs w"
  by (auto simp: getConnection_def Let_def extract_error_eq lognotice_def addNewConnection_def
      split: sum.splits option.splits if_splits)

lemma begin_loop_step:
  assumes "retry < RETRYNUMB"
      and "getConnection drv cat data query w = (Inr (data1, query1), w1)"
      and "\<not> SQL_SUCCEEDED (exec_ret (exec_resp drv (execs w1)))"
  shows "begin_loop drv cat retry data query w =
     (let a = exec_resp drv (execs w1);
          data2 = data1\<lparr>data_stmt := stmt_handle a\<rparr>;
          native = first_native (retrieved (exec_diags a));
          w3 = w1\<lparr>execs := execs w1 + 1,
                  notices := notices w1 @ DiagHeader ''Error while executing query'' #
                               diag_lines 0 (retrieved (exec_diags a))\<rparr>
      in case data_cached data1 of
           None \<Rightarrow> (Inr (1, data2, query1), w3)
         | Some tok \<Rightarrow>
             if atol tok = 0 \<or> atol tok = ANYERROR \<or> atol tok = sint native
             then begin_loop drv cat (retry + 1) data2 query1 (removeConnection (data_dbc data1) w3)
             else (Inr (1, data2, query1), removeConnection (data_dbc data1) w3))"
  using assms
  apply (subst begin_loop.simps)
  apply (simp add: Let_def extract_error_eq split: option.splits)
  done

lemma begin_loop_cap: "begin_loop drv cat RETRYNUMB d q w = (Inr (1, d, q), w)"
  by (subst begin_loop.simps) simp

lemma begin_loop_connect_error:
  assumes "retry < RETRYNUMB"
      and "getConnection drv cat data query w = (Inl e, w1)"
  shows "begin_loop drv cat retry data query w = (Inl e, w1)"
  using assms by (subst begin_loop.simps) simp

lemma begin_finish_failure:
  "begin_finish drv (Inr (1, d, q), w) =
     (Inl (PgError ERRCODE_FDW_ERROR (''Cannot execute query '' @ fmt_string q)
             ''Check query syntax''), w)"
  by (simp add: begin_finish_def)

lemma begin_finish_error: "begin_finish drv (Inl e, w) = (Inl e, w)"
  by (simp add: begin_finish_def)

subsection \<open>Rows\<close>

lemma strrchr_Some: "strrchr s c = Some p \<Longrightarrow> p < length s \<and> s ! p = c"
  by (induction s arbitrary: p) (auto split: option.splits if_splits)

lemma strrchr_None: "strrchr s c = None \<longleftrightarrow> c \<notin> set s"
  by (induction s) (auto split: option.splits)

lemma commas_to_points_update:
  "p < length s \<Longrightarrow> s ! p = CHR '','' \<Longrightarrow>
     commas_to_points (s[p := CHR ''.'']) = commas_to_points s"
  by (simp add: commas_to_points_def list_eq_iff_nth_eq nth_list_update)

lemma replace_commas_eq: "replace_commas s = commas_to_points s"
proof (induction s rule: replace_commas.induct)
  case (1 s)
  show ?case
  proof (cases "strrchr s (CHR '','')")
    case None
    then have "CHR '','' \<notin> set s" by (simp add: strrchr_None)
    then have "commas_to_points s = s"
      by (induction s) (auto simp: commas_to_points_def)
    with None show ?thesis by (subst replace_commas.simps) simp
  next
    case (Some p)
    then have "p < length s" "s ! p = CHR '',''"
      by (auto dest: strrchr_Some)
    then have "commas_to_points (s[p := CHR ''.'']) = commas_to_points s"
      by (rule commas_to_points_update)
    with Some "1.IH" [OF Some] show ?thesis by (subst replace_commas.simps) simp
  qed
qed

lemma iterate_columns_values:
  assumes "iterate_columns col ixs data w = (Inr data', w')" "distinct ixs"
  shows "length (data_values data') = length (data_values data) \<and>
         length (data_columnsbuf data') = length (data_columnsbuf data) \<and>
         (\<forall>i \<in> set ixs. i < length (data_values data) \<and> data_values data' ! i = emitted_cell col data i) \<and>
         (\<forall>j. j \<notin> set ixs \<longrightarrow> data_values data' ! j = data_values data ! j \<and>
                data_columnsbuf data' ! j = data_columnsbuf data ! j)"
  using assms
proof (induction ixs arbitrary: data)
  case Nil
  then show ?case by simp
next
  case (Cons i ixs)
  define isnull where "isnull \<longleftrightarrow> sint (ucast (getdata_indicator (col i)) :: 32 word) = SQL_NULL_DATA"
  define newtext where "newtext = (if \<not> isnull \<and> isNumber (data_columnsbuf data ! i)
      then replace_commas (fetched_text col data i) else fetched_text col data i)"
  define data1 where "data1 = data
      \<lparr>data_columnsbuf := (data_columnsbuf data)[i := (data_columnsbuf data ! i)\<lparr>buf := newtext\<rparr>],
       data_values := (data_values data)[i := (if isnull then None else Some newtext)]\<rparr>"
  from Cons.prems(1) have rng: "i < length (data_columnsbuf data)" "i < length (data_values data)"
    by (auto split: if_splits)
  from Cons.prems(1) rng have rest: "iterate_columns col ixs data1 w = (Inr data', w')"
    by (auto simp: Let_def fetched_text_def data1_def newtext_def isnull_def split: if_splits)
  from Cons.prems(2) have d: "distinct ixs" "i \<notin> set ixs" by auto
  note IH = Cons.IH [OF rest d(1)]
  have len: "length (data_values data1) = length (data_values data)"
    "length (data_columnsbuf data1) = length (data_columnsbuf data)"
    by (simp_all add: data1_def)
  have cb: "data_columnsbuf data1 ! k = data_columnsbuf data ! k"
    and vl: "data_values data1 ! k = data_values data ! k" if "k \<noteq> i" for k
    using that by (simp_all add: data1_def)
  have same: "emitted_cell col data1 k = emitted_cell col data k" if "k \<noteq> i" for k
    by (simp only: emitted_cell_def fetched_text_def cb [OF that])
  have here: "data_values data1 ! i = emitted_cell col data i"
    using rng by (simp add: data1_def newtext_def isnull_def emitted_cell_def replace_commas_eq)
  show ?case
  proof (intro conjI ballI allI impI)
    show "length (data_values data') = length (data_values data)" using IH len by simp
    show "length (data_columnsbuf data') = length (data_columnsbuf data)" using IH len by simp
  next
    fix k assume k: "k \<in> set (i # ixs)"
    show "k < length (data_values data)"
      using k IH rng len by auto
    show "data_values data' ! k = emitted_cell col data k"
    proof (cases "k = i")
      case True
      with IH d(2) here show ?thesis by simp
    next
      case False
      with k have "k \<in> set ixs" by simp
      with IH have "data_values data' ! k = emitted_cell col data1 k" by blast
      with same [OF False] show ?thesis by simp
    qed
  next
    fix j assume j: "j \<notin> set (i # ixs)"
    then have "j \<notin> set ixs" "j \<noteq> i" by auto
    with IH vl cb show "data_values data' ! j = data_values data ! j"
      and "data_columnsbuf data' ! j = data_columnsbuf data ! j" by simp_all
  qed
qed

lemma iterate_row:
  assumes "db2_IterateForeignScan drv data w = (Inr (data', Some row), w')"
      and "i < data_no_columns data"
  shows "row ! i = emitted_cell (fetch_col (fetch_resp drv (fetches w))) data i \<and> i < length row"
proof -
  let ?col = "fetch_col (fetch_resp drv (fetches w))"
  from assms(1) obtain w1 where
    it: "iterate_columns ?col [0 ..< data_no_columns data] data w1 = (Inr data', w')"
    and row: "row = data_values data'"
    by (auto simp: db2_IterateForeignScan_def Let_def split: if_splits sum.splits prod.splits)
  from iterate_columns_values [OF it] assms(2) row show ?thesis
    by auto
qed

subsection \<open>Claims about the cache\<close>

text \<open>
  C2 (the code departs from it). The claim: \<^verbatim>\<open>removeConnection\<close> unlinks and
  frees exactly the entries with the given connection handle, and every other
  entry is still found under its own key. Evaluated on a cache built by
  caching \<open>D1\<close> (handles 1, 2) and then \<open>D2\<close> (handles 3, 4): removing handle 2
  frees the handles of \<open>D1\<close> only, but leaves the cache empty, so that \<open>D2\<close>,
  whose handle is 4, is found before the call and is not found after it.
\<close>

theorem removeConnection_unlinks_earlier_entries:
  "addNewConnection (replicate DSN_MAX_LEN NUL) (Some ''D1'') 10 1 2 scenario_world =
     Inr (scenario_world\<lparr>cache := [entry_D1]\<rparr>) \<and>
   addNewConnection (replicate DSN_MAX_LEN NUL) (Some ''D2'') 10 3 4
       (scenario_world\<lparr>cache := [entry_D1]\<rparr>) =
     Inr (scenario_world\<lparr>cache := [entry_D2, entry_D1]\<rparr>) \<and>
   findConnection (Some ''D2'') 10 [entry_D2, entry_D1] = Inr (Some entry_D2) \<and>
   dbc entry_D2 \<noteq> 2 \<and>
   removeConnection 2 (scenario_world\<lparr>cache := [entry_D2, entry_D1]\<rparr>) =
     scenario_world\<lparr>cache := [], freed := [(SQL_HANDLE_DBC, 2), (SQL_HANDLE_ENV, 1)]\<rparr> \<and>
   findConnection (Some ''D2'') 10
       (cache (removeConnection 2 (scenario_world\<lparr>cache := [entry_D2, entry_D1]\<rparr>))) =
     Inr None"
  by code_simp

text \<open>
  C3 (the code departs from it). The claim: for every dsn of at most 127
  characters, \<^verbatim>\<open>findConnection\<close> after \<^verbatim>\<open>addNewConnection\<close> returns the
  entry added. Evaluated on a dsn of exactly 127 characters and an allocation
  whose bytes are not zero: the entry is added and is not found.
\<close>

theorem findConnection_after_add_127:
  "length dsn_127 = 127 \<and> NUL \<notin> set dsn_127 \<and>
   addNewConnection (replicate DSN_MAX_LEN (CHR ''x'')) (Some dsn_127) 10 1 2 scenario_world =
     Inr (scenario_world\<lparr>cache := [entry_127]\<rparr>) \<and>
   findConnection (Some dsn_127) 10 (cache (scenario_world\<lparr>cache := [entry_127]\<rparr>)) = Inr None"
  by code_simp

text \<open>
  C10 (the code departs from it). The claim: for every dsn of at most 127
  characters the stored key equals the dsn. Evaluated on a dsn of exactly 127
  characters and an allocation whose bytes are not zero: the stored key is
  the 127 characters followed by the byte of the allocation, it holds no NUL,
  and it does not compare equal to the dsn.
\<close>

theorem stored_key_127_unterminated:
  "length dsn_127 = 127 \<and>
   strncpy (replicate DSN_MAX_LEN (CHR ''x'')) dsn_127 (DSN_MAX_LEN - 1) = dsn_name entry_127 \<and>
   dsn_name entry_127 = dsn_127 @ ''x'' \<and>
   NUL \<notin> set (dsn_name entry_127) \<and>
   strcmp_eq (dsn_name entry_127) dsn_127 = Some False"
  by code_simp

subsection \<open>Claims about diagnostics\<close>

text \<open>
  C8, as amended. \<^verbatim>\<open>extract_error\<close> asks for the diagnostic records in order
  and stops after the first answer that is not \<^verbatim>\<open>SQL_SUCCESS\<close>. It emits a
  header and one line (state, record number, native code, text) for each
  record answered \<^verbatim>\<open>SQL_SUCCESS\<close> or \<^verbatim>\<open>SQL_SUCCESS_WITH_INFO\<close> up to
  there. It returns the native code of the first of these records whose
  native code is not -1, and -1 when there is none (in particular when no
  record is available); with a NULL \<^verbatim>\<open>outnative\<close> it returns nothing.
\<close>

theorem extract_error_result:
  "extract_error fn diags want w =
     (if want then Some (first_native (retrieved diags)) else None,
      w\<lparr>notices := notices w @ DiagHeader fn # diag_lines 0 (retrieved diags)\<rparr>) \<and>
   first_native (retrieved []) = - 1"
  by (simp add: extract_error_eq ANYERROR_def)

text \<open>
  C8 as stated fails twice. A record answered \<^verbatim>\<open>SQL_SUCCESS_WITH_INFO\<close> ends
  the enumeration, so the record after it is not emitted; and a first record
  with native code -1 is passed over for the native code of a later record.
\<close>

theorem extract_error_counterexample:
  "map diag_ret diags_truncated = [SQL_SUCCESS_WITH_INFO, SQL_SUCCESS] \<and>
   notices (snd (extract_error ''f'' diags_truncated True scenario_world)) =
     [DiagHeader ''f'', DiagLine ''01004'' 1 5 ''first''] \<and>
   map diag_ret diags_minus_one = [SQL_SUCCESS, SQL_SUCCESS] \<and>
   map diag_native diags_minus_one = [- 1, 7] \<and>
   fst (extract_error ''f'' diags_minus_one True scenario_world) = Some 7"
  by code_simp

subsection \<open>Claims about connecting and retrying\<close>

text \<open>
  C6. When \<^verbatim>\<open>getConnection\<close> finds no cache entry and the driver rejects
  \<^verbatim>\<open>SQLConnect\<close>, the call ends with the error
  \<^verbatim>\<open>ERRCODE_FDW_UNABLE_TO_ESTABLISH_CONNECTION\<close>, the message holds the
  data source name, and the cache is as it was.
\<close>

theorem getConnection_connect_failure:
  assumes "findConnection (opt_dsn (resolve_options cat query)) (user_id cat) (cache w) = Inr None"
      and "\<not> SQL_SUCCEEDED (connect_ret (connect_resp drv (connects w)))"
      and "opt_dsn (resolve_options cat query) = Some dsn"
  shows "\<exists>w'. getConnection drv cat data query w =
           (Inl (PgError ERRCODE_FDW_UNABLE_TO_ESTABLISH_CONNECTION
                  (''cannot connect to odbc dsn '' @ cstr dsn)
                  ''Check connection data or make sure that target database is online''), w') \<and>
           cache w' = cache w"
  using getConnection_connect_fails [OF assms(1,2), of data] assms(3)
  by (auto simp: fmt_string_def)

theorem getConnection_connect_failure_witness:
  "\<exists>w'. getConnection driver_connect_fails (scenario_catalog (Some ''1205''))
          scenario_data None scenario_world =
           (Inl (PgError ERRCODE_FDW_UNABLE_TO_ESTABLISH_CONNECTION
                  ''cannot connect to odbc dsn D1''
                  ''Check connection data or make sure that target database is online''), w') \<and>
         cache w' = []"
proof -
  have h1: "findConnection (opt_dsn (resolve_options (scenario_catalog (Some ''1205'')) None))
              (user_id (scenario_catalog (Some ''1205''))) (cache scenario_world) = Inr None"
    by code_simp
  have h2: "\<not> SQL_SUCCEEDED (connect_ret (connect_resp driver_connect_fails
              (connects scenario_world)))"
    by code_simp
  have h3: "opt_dsn (resolve_options (scenario_catalog (Some ''1205'')) None) = Some ''D1''"
    by code_simp
  have c: "cstr ''D1'' = ''D1''" "cache scenario_world = []"
    by code_simp+
  from getConnection_connect_failure [OF h1 h2 h3, of scenario_data] show ?thesis
    unfolding c by simp
qed

text \<open>
  C9. An iteration of the loop in \<^verbatim>\<open>db2_BeginForeignScan\<close> whose execute
  fails in a way that qualifies for a retry removes the connection from the
  cache. If the iteration after it then finds no cache entry and the driver
  rejects \<^verbatim>\<open>SQLConnect\<close>, the scan ends with
  \<^verbatim>\<open>ERRCODE_FDW_UNABLE_TO_ESTABLISH_CONNECTION\<close>: the one execute of the
  first iteration stays the only one, and the error is not the one reported
  for a failed execute.
\<close>

theorem reconnect_failure_aborts:
  assumes "retry + 1 < RETRYNUMB"
      and "getConnection drv cat data query w = (Inr (data1, query1), w1)"
      and "\<not> SQL_SUCCEEDED (exec_ret (exec_resp drv (execs w1)))"
      and "extract_error ''Error while executing query'' (exec_diags (exec_resp drv (execs w1)))
             True (w1\<lparr>execs := execs w1 + 1\<rparr>) = (Some native, w3)"
      and "data_cached data1 = Some tok"
      and "atol tok = 0 \<or> atol tok = ANYERROR \<or> atol tok = sint native"
      and "w4 = removeConnection (data_dbc data1) w3"
      and "findConnection (opt_dsn (resolve_options cat query1)) (user_id cat) (cache w4) = Inr None"
      and "\<not> SQL_SUCCEEDED (connect_ret (connect_resp drv (connects w4)))"
  shows "\<exists>msg hint w'.
           begin_finish drv (begin_loop drv cat retry data query w) =
             (Inl (PgError ERRCODE_FDW_UNABLE_TO_ESTABLISH_CONNECTION msg hint), w') \<and>
           ERRCODE_FDW_UNABLE_TO_ESTABLISH_CONNECTION \<noteq> ERRCODE_FDW_ERROR \<and>
           execs w' = execs w + 1 \<and> connects w' = connects w4 + 1"
proof -
  let ?data2 = "data1\<lparr>data_stmt := stmt_handle (exec_resp drv (execs w1))\<rparr>"
  have r: "retry < RETRYNUMB" using assms(1) by simp
  have nat: "native = first_native (retrieved (exec_diags (exec_resp drv (execs w1))))"
    and w3: "w3 = w1\<lparr>execs := execs w1 + 1,
                  notices := notices w1 @ DiagHeader ''Error while executing query'' #
                               diag_lines 0 (retrieved (exec_diags (exec_resp drv (execs w1))))\<rparr>"
    using assms(4) by (simp_all add: extract_error_eq)
  have ex: "execs w4 = execs w + 1"
    using getConnection_execs [OF assms(2)] w3 assms(7) by simp
  have step: "begin_loop drv cat retry data query w = begin_loop drv cat (retry + 1) ?data2 query1 w4"
    using begin_loop_step [OF r assms(2,3)] assms(5,6) nat w3 assms(7)
    by (simp add: Let_def)
  from getConnection_connect_fails [OF assms(8,9), of ?data2]
  obtain w' where g: "getConnection drv cat ?data2 query1 w4 =
           (Inl (PgError ERRCODE_FDW_UNABLE_TO_ESTABLISH_CONNECTION
                  (''cannot connect to odbc dsn '' @ fmt_string (opt_dsn (resolve_options cat query1)))
                  ''Check connection data or make sure that target database is online''), w')"
    and e: "execs w' = execs w4" "connects w' = connects w4 + 1"
    by blast
  from begin_loop_connect_error [OF assms(1) g] step e ex show ?thesis
    by (simp add: begin_finish_error)
qed

theorem reconnect_failure_aborts_witness:
  "\<exists>w'. db2_BeginForeignScan (driver_reconnect_fails 1205)
            (scenario_catalog (Some ''1205'')) scenario_data scenario_world =
          (Inl (PgError ERRCODE_FDW_UNABLE_TO_ESTABLISH_CONNECTION
                  ''cannot connect to odbc dsn D1''
                  ''Check connection data or make sure that target database is online''), w') \<and>
        execs w' = 1 \<and> connects w' = 2"
proof -
  let ?drv = "driver_reconnect_fails 1205"
  let ?cat = "scenario_catalog (Some ''1205'')"
  let ?w0 = "scenario_world\<lparr>freed := [(SQL_HANDLE_ENV, 0)]\<rparr>"
  let ?data1 = "scenario_data\<lparr>data_env := 1, data_dbc := 2, data_cached := Some ''1205''\<rparr>"
  let ?w1 = "?w0
      \<lparr>cache := [\<lparr>dsn_name = strncpy (replicate DSN_MAX_LEN (CHR ''x'')) ''D1'' (DSN_MAX_LEN - 1),
                  userId = 10, env = 1, dbc = 2\<rparr>],
       connects := 1\<rparr>"
  let ?w3 = "?w1\<lparr>execs := 1,
       notices := [DiagHeader ''Error while executing query'', DiagLine ''40001'' 1 1205 ''failed'']\<rparr>"
  let ?w4 = "scenario_world
      \<lparr>freed := [(SQL_HANDLE_ENV, 0), (SQL_HANDLE_DBC, 2), (SQL_HANDLE_ENV, 1)],
       notices := [DiagHeader ''Error while executing query'', DiagLine ''40001'' 1 1205 ''failed''],
       connects := 1, execs := 1\<rparr>"
  have h1: "0 + 1 < RETRYNUMB" by code_simp
  have h2: "getConnection ?drv ?cat scenario_data None ?w0 =
              (Inr (?data1, Some ''SELECT 1''), ?w1)"
    by code_simp
  have h3: "\<not> SQL_SUCCEEDED (exec_ret (exec_resp ?drv (execs ?w1)))"
    by code_simp
  have h4: "extract_error ''Error while executing query'' (exec_diags (exec_resp ?drv (execs ?w1)))
             True (?w1\<lparr>execs := execs ?w1 + 1\<rparr>) = (Some 1205, ?w3)"
    by code_simp
  have h5: "data_cached ?data1 = Some ''1205''" by code_simp
  have h6: "atol ''1205'' = 0 \<or> atol ''1205'' = ANYERROR \<or> atol ''1205'' = sint (1205 :: 32 word)"
    by code_simp
  have h7: "?w4 = removeConnection (data_dbc ?data1) ?w3" by code_simp
  have h8: "findConnection (opt_dsn (resolve_options ?cat (Some ''SELECT 1''))) (user_id ?cat)
              (cache ?w4) = Inr None"
    by code_simp
  have h9: "\<not> SQL_SUCCEEDED (connect_ret (connect_resp ?drv (connects ?w4)))"
    by code_simp
  have l: "list_drivers ?drv scenario_world = ?w0" by code_simp
  have v: "fst (db2_BeginForeignScan ?drv ?cat scenario_data scenario_world) =
      Inl (PgError ERRCODE_FDW_UNABLE_TO_ESTABLISH_CONNECTION
                  ''cannot connect to odbc dsn D1''
                  ''Check connection data or make sure that target database is online'')"
    by code_simp
  have c: "execs ?w0 = 0" "connects ?w4 = 1" by code_simp+
  from reconnect_failure_aborts [OF h1 h2 h3 h4 h5 h6 h7 h8 h9]
  obtain msg hint w' where
    r: "begin_finish ?drv (begin_loop ?drv ?cat 0 scenario_data None ?w0) =
          (Inl (PgError ERRCODE_FDW_UNABLE_TO_ESTABLISH_CONNECTION msg hint), w')"
    and n: "execs w' = execs ?w0 + 1" "connects w' = connects ?w4 + 1"
    by blast
  from r have b: "db2_BeginForeignScan ?drv ?cat scenario_data scenario_world =
      (Inl (PgError ERRCODE_FDW_UNABLE_TO_ESTABLISH_CONNECTION msg hint), w')"
    by (simp only: db2_BeginForeignScan_def l)
  with v have "msg = ''cannot connect to odbc dsn D1''"
    "hint = ''Check connection data or make sure that target database is online''"
    by simp_all
  with b n c show ?thesis by simp
qed

text \<open>
  C1, as amended. For every failed execute in the loop of
  \<^verbatim>\<open>db2_BeginForeignScan\<close>: without a \<open>cached\<close> option the scan fails at once
  with the error of a failed execute, after that one attempt. With a token
  that \<^verbatim>\<open>atol\<close> reads as 0 (as it does \<open>0\<close> and any text without a digit)
  or as -1, and with a token read as any other integer when the native code
  reported equals it, the connection is removed from the cache and the loop
  goes on with the next attempt; the loop ends in failure once the counter
  has reached the cap of 2. With a token read as an integer other than 0 and
  -1 and a native code that differs from it, the scan fails at once,
  without a further attempt.
\<close>

theorem begin_loop_retry_policy:
  assumes "retry < RETRYNUMB"
      and "getConnection drv cat data query w = (Inr (data1, query1), w1)"
      and "\<not> SQL_SUCCEEDED (exec_ret (exec_resp drv (execs w1)))"
      and "extract_error ''Error while executing query'' (exec_diags (exec_resp drv (execs w1)))
             True (w1\<lparr>execs := execs w1 + 1\<rparr>) = (Some native, w3)"
      and "data2 = data1\<lparr>data_stmt := stmt_handle (exec_resp drv (execs w1))\<rparr>"
      and "w4 = removeConnection (data_dbc data1) w3"
  shows "(data_cached data1 = None \<longrightarrow>
            begin_finish drv (begin_loop drv cat retry data query w) =
              (Inl (PgError ERRCODE_FDW_ERROR (''Cannot execute query '' @ fmt_string query1)
                      ''Check query syntax''), w3) \<and>
            execs w3 = execs w + 1) \<and>
         (\<forall>tok. data_cached data1 = Some tok \<and>
                (atol tok = 0 \<or> atol tok = ANYERROR \<or> atol tok = sint native) \<longrightarrow>
            begin_loop drv cat retry data query w =
              begin_loop drv cat (retry + 1) data2 query1 w4) \<and>
         (\<forall>tok. data_cached data1 = Some tok \<and>
                atol tok \<noteq> 0 \<and> atol tok \<noteq> ANYERROR \<and> atol tok \<noteq> sint native \<longrightarrow>
            begin_finish drv (begin_loop drv cat retry data query w) =
              (Inl (PgError ERRCODE_FDW_ERROR (''Cannot execute query '' @ fmt_string query1)
                      ''Check query syntax''), w4) \<and>
            execs w4 = execs w + 1) \<and>
         (\<forall>d q w'. begin_finish drv (begin_loop drv cat RETRYNUMB d q w') =
              (Inl (PgError ERRCODE_FDW_ERROR (''Cannot execute query '' @ fmt_string q)
                      ''Check query syntax''), w')) \<and>
         RETRYNUMB = 2 \<and> atol ''0'' = 0 \<and> atol ''1205'' = 1205 \<and>
         (\<forall>tok. (\<forall>c \<in> set tok. \<not> isdigit c) \<longrightarrow> atol tok = 0)"
proof -
  have ex: "execs w1 = execs w"
    using assms(2) by (rule getConnection_execs)
  have nat: "native = first_native (retrieved (exec_diags (exec_resp drv (execs w1))))"
    and w3: "w3 = w1\<lparr>execs := execs w1 + 1,
                  notices := notices w1 @ DiagHeader ''Error while executing query'' #
                               diag_lines 0 (retrieved (exec_diags (exec_resp drv (execs w1))))\<rparr>"
    using assms(4) by (simp_all add: extract_error_eq)
  note step = begin_loop_step [OF assms(1-3), unfolded Let_def, folded nat w3 assms(5), folded assms(6)]
  have a: "data_cached data1 = None \<longrightarrow>
            begin_finish drv (begin_loop drv cat retry data query w) =
              (Inl (PgError ERRCODE_FDW_ERROR (''Cannot execute query '' @ fmt_string query1)
                      ''Check query syntax''), w3) \<and>
            execs w3 = execs w + 1"
    using step ex w3 by (simp add: begin_finish_failure)
  have b: "\<forall>tok. data_cached data1 = Some tok \<and>
                (atol tok = 0 \<or> atol tok = ANYERROR \<or> atol tok = sint native) \<longrightarrow>
            begin_loop drv cat retry data query w =
              begin_loop drv cat (retry + 1) data2 query1 w4"
    using step by auto
  have c: "\<forall>tok. data_cached data1 = Some tok \<and>
                atol tok \<noteq> 0 \<and> atol tok \<noteq> ANYERROR \<and> atol tok \<noteq> sint native \<longrightarrow>
            begin_finish drv (begin_loop drv cat retry data query w) =
              (Inl (PgError ERRCODE_FDW_ERROR (''Cannot execute query '' @ fmt_string query1)
                      ''Check query syntax''), w4) \<and>
            execs w4 = execs w + 1"
    using step ex w3 assms(6) by (auto simp: begin_finish_failure)
  have d: "\<forall>d q w'. begin_finish drv (begin_loop drv cat RETRYNUMB d q w') =
              (Inl (PgError ERRCODE_FDW_ERROR (''Cannot execute query '' @ fmt_string q)
                      ''Check query syntax''), w')"
    by (simp add: begin_loop_cap begin_finish_failure)
  have e: "RETRYNUMB = 2" by (simp add: RETRYNUMB_def)
  have f: "atol ''0'' = 0" "atol ''1205'' = 1205" by code_simp+
  have g: "\<forall>tok. (\<forall>c \<in> set tok. \<not> isdigit c) \<longrightarrow> atol tok = 0"
  proof (intro allI impI)
    fix tok assume nd: "\<forall>c \<in> set tok. \<not> isdigit c"
    have dv: "\<And>cs. set cs \<subseteq> set tok \<Longrightarrow> digits_value cs 0 = 0"
      subgoal for cs using nd by (cases cs) auto
      done
    have sub: "set (dropWhile isspace tok) \<subseteq> set tok"
      by (auto dest: set_dropWhileD)
    show "atol tok = 0"
    proof (cases "dropWhile isspace tok")
      case Nil
      show ?thesis unfolding atol_def Nil by simp
    next
      case (Cons c cs)
      with sub have "set (c # cs) \<subseteq> set tok" "set cs \<subseteq> set tok" by auto
      then have "digits_value (c # cs) 0 = 0" "digits_value cs 0 = 0"
        by (simp_all only: dv)
      then show ?thesis unfolding atol_def Cons
        by (simp add: clamp_long_def LONG_MAX_def LONG_MIN_def del: digits_value.simps)
    qed
  qed
  from a b c d e f g show ?thesis by blast
qed

theorem begin_loop_retry_policy_witness:
  "begin_loop (driver_exec_fails 1205) (scenario_catalog (Some ''1205''))
      0 scenario_data None scenario_world =
   begin_loop (driver_exec_fails 1205) (scenario_catalog (Some ''1205''))
      1 (scenario_data\<lparr>data_env := 1, data_dbc := 2, data_stmt := 100,
                       data_cached := Some ''1205''\<rparr>)
      (Some ''SELECT 1'')
      (scenario_world
         \<lparr>freed := [(SQL_HANDLE_DBC, 2), (SQL_HANDLE_ENV, 1)],
          notices := [DiagHeader ''Error while executing query'',
                      DiagLine ''40001'' 1 1205 ''failed''],
          connects := 1, execs := 1\<rparr>)"
proof -
  let ?drv = "driver_exec_fails 1205"
  let ?cat = "scenario_catalog (Some ''1205'')"
  let ?data1 = "scenario_data\<lparr>data_env := 1, data_dbc := 2, data_cached := Some ''1205''\<rparr>"
  let ?w1 = "scenario_world
      \<lparr>cache := [\<lparr>dsn_name = strncpy (replicate DSN_MAX_LEN (CHR ''x'')) ''D1'' (DSN_MAX_LEN - 1),
                  userId = 10, env = 1, dbc = 2\<rparr>],
       connects := 1\<rparr>"
  let ?w3 = "?w1\<lparr>execs := 1,
       notices := [DiagHeader ''Error while executing query'', DiagLine ''40001'' 1 1205 ''failed'']\<rparr>"
  let ?data2 = "scenario_data\<lparr>data_env := 1, data_dbc := 2, data_stmt := 100,
                       data_cached := Some ''1205''\<rparr>"
  let ?w4 = "scenario_world
      \<lparr>freed := [(SQL_HANDLE_DBC, 2), (SQL_HANDLE_ENV, 1)],
       notices := [DiagHeader ''Error while executing query'', DiagLine ''40001'' 1 1205 ''failed''],
       connects := 1, execs := 1\<rparr>"
  have h1: "0 < RETRYNUMB" by code_simp
  have h2: "getConnection ?drv ?cat scenario_data None scenario_world =
              (Inr (?data1, Some ''SELECT 1''), ?w1)"
    by code_simp
  have h3: "\<not> SQL_SUCCEEDED (exec_ret (exec_resp ?drv (execs ?w1)))"
    by code_simp
  have h4: "extract_error ''Error while executing query'' (exec_diags (exec_resp ?drv (execs ?w1)))
             True (?w1\<lparr>execs := execs ?w1 + 1\<rparr>) = (Some 1205, ?w3)"
    by code_simp
  have h5: "?data2 = ?data1\<lparr>data_stmt := stmt_handle (exec_resp ?drv (execs ?w1))\<rparr>"
    by code_simp
  have h6: "?w4 = removeConnection (data_dbc ?data1) ?w3" by code_simp
  have c: "data_cached ?data1 = Some ''1205''"
    "atol ''1205'' = 0 \<or> atol ''1205'' = ANYERROR \<or> atol ''1205'' = sint (1205 :: 32 word)"
    by code_simp+
  from begin_loop_retry_policy [OF h1 h2 h3 h4 h5 h6] c
  have "begin_loop ?drv ?cat 0 scenario_data None scenario_world =
        begin_loop ?drv ?cat (0 + 1) ?data2 (Some ''SELECT 1'') ?w4"
    by blast
  then show ?thesis by simp
qed

text \<open>
  C1 as stated fails for the token \<open>-1\<close>: it is read as the integer -1, which
  is not 0, the native code reported is 1205, which differs from it, and the
  scan still makes a second attempt.
\<close>

theorem begin_loop_retry_policy_counterexample:
  "atol ''-1'' = - 1 \<and>
   fst (extract_error ''Error while executing query''
          (exec_diags (exec_resp (driver_exec_fails 1205) 0))
          True scenario_world) = Some 1205 \<and>
   execs (snd (db2_BeginForeignScan (driver_exec_fails 1205)
                 (scenario_catalog (Some ''-1'')) scenario_data scenario_world)) = 2 \<and>
   execs (snd (db2_BeginForeignScan (driver_exec_fails 1205)
                 (scenario_catalog (Some ''7'')) scenario_data scenario_world)) = 1"
  by code_simp


subsection \<open>Claims about rows\<close>




text \<open>
  C7, as amended. When \<^verbatim>\<open>db2_IterateForeignScan\<close> hands on a row, the cell
  of a column is NULL whenever the low 32 bits of its length indicator, read
  as an \<^verbatim>\<open>int\<close>, are \<^verbatim>\<open>SQL_NULL_DATA\<close>, which they are when the indicator
  is \<^verbatim>\<open>SQL_NULL_DATA\<close>. Otherwise the cell is the text fetched, with every
  comma replaced by a point when the column is flagged as a number.
\<close>

theorem iterate_null_cells:
  assumes "db2_IterateForeignScan drv data w = (Inr (data', Some row), w')"
      and "i < data_no_columns data"
      and "col = fetch_col (fetch_resp drv (fetches w))"
  shows "(sint (getdata_indicator (col i)) = SQL_NULL_DATA \<longrightarrow> row ! i = None) \<and>
         (sint (ucast (getdata_indicator (col i)) :: 32 word) = SQL_NULL_DATA \<longrightarrow> row ! i = None) \<and>
         (sint (ucast (getdata_indicator (col i)) :: 32 word) \<noteq> SQL_NULL_DATA \<longrightarrow>
            row ! i = Some (if isNumber (data_columnsbuf data ! i)
                            then commas_to_points (fetched_text col data i)
                            else fetched_text col data i))"
proof -
  from iterate_row [OF assms(1,2)] assms(3)
  have r: "row ! i = emitted_cell col data i" by simp
  have "sint (ucast x :: 32 word) = SQL_NULL_DATA" if "sint x = SQL_NULL_DATA" for x :: "64 word"
  proof -
    from that have "word_of_int (sint x) = (word_of_int (- 1) :: 64 word)"
      by (simp add: SQL_NULL_DATA_def)
    then have "x = - 1" by simp
    moreover have "sint (ucast (- 1 :: 64 word) :: 32 word) = SQL_NULL_DATA"
      by code_simp
    ultimately show ?thesis by simp
  qed
  with r show ?thesis
    by (auto simp: emitted_cell_def)
qed

theorem iterate_null_cells_witness:
  "map_sum id snd
     (fst (db2_IterateForeignScan
             (scenario_fetch cells_null)
             (scenario_columns [True, False]) scenario_world)) =
     Inr (Some [None, Some ''abc'']) \<and>
   [None, Some ''abc''] ! 0 = None \<and> [None, Some ''abc''] ! 1 = Some ''abc''"
proof -
  let ?drv = "scenario_fetch cells_null"
  let ?data = "scenario_columns [True, False]"
  let ?row = "[None, Some ''abc'']"
  let ?data' = "?data
      \<lparr>data_columnsbuf := [\<lparr>buf = ''old'', columnsize = 16, isNumber = True\<rparr>,
                           \<lparr>buf = ''abc'', columnsize = 16, isNumber = False\<rparr>],
       data_values := ?row\<rparr>"
  have h1: "db2_IterateForeignScan ?drv ?data scenario_world =
      (Inr (?data', Some ?row), scenario_world\<lparr>fetches := 1\<rparr>)"
    by code_simp
  have h2: "0 < data_no_columns ?data" "1 < data_no_columns ?data" by code_simp+
  have c: "sint (getdata_indicator (fetch_col (fetch_resp ?drv (fetches scenario_world)) 0)) = SQL_NULL_DATA"
    "sint (ucast (getdata_indicator (fetch_col (fetch_resp ?drv (fetches scenario_world)) 1)) :: 32 word)
       \<noteq> SQL_NULL_DATA"
    "\<not> isNumber (data_columnsbuf ?data ! 1)"
    "fetched_text (fetch_col (fetch_resp ?drv (fetches scenario_world))) ?data 1 = ''abc''"
    by code_simp+
  from iterate_null_cells [OF h1 h2(1) refl] c
  have r0: "?row ! 0 = None" by blast
  from iterate_null_cells [OF h1 h2(2) refl] c
  have r1: "?row ! 1 = Some ''abc''" by simp
  from h1 have "map_sum id snd (fst (db2_IterateForeignScan ?drv ?data scenario_world)) =
      Inr (Some ?row)"
    by simp
  with r0 r1 show ?thesis by blast
qed

text \<open>
  C7 as stated fails twice. The indicator 3 is not the null marker and the
  column is a number: the cell is \<open>1.5\<close>, not the text fetched, \<open>1,5\<close>. The
  indicator 4294967295 is not the null marker either, and the cell is NULL.
\<close>

theorem iterate_null_cells_counterexample:
  "map_sum id snd
     (fst (db2_IterateForeignScan
             (scenario_fetch cells_wide)
             (scenario_columns [True, False]) scenario_world)) =
     Inr (Some [Some ''1.5'', None]) \<and>
   sint (3 :: 64 word) \<noteq> SQL_NULL_DATA \<and> ''1.5'' \<noteq> ''1,5'' \<and>
   sint (4294967295 :: 64 word) \<noteq> SQL_NULL_DATA"
  by code_simp


end
